theory Spec2Isabelle
  imports Complex_Main "HOL-Library.Sublist"
begin

section \<open>Data model\<close>

text \<open>
  The back end of the merchant registry: request handlers over a relational database
  reached through an ORM. Tables are lists of rows; a handler takes the database and
  returns its response together with the database it leaves behind. The log and the audit
  trail (utilities that are not among the sources) leave no trace in a response or in the
  four tables, and are not modelled.
\<close>

subsection \<open>Enumerations of shared-lib\<close>

datatype MerchantRegistrationStatus = DRAFT | REVIEW | WAITINGALIASGENERATION | APPROVED | REJECTED

text \<open>
  Modelled from the spec: the declaration of the enum \<open>MerchantRegistrationStatus\<close> lives in
  the package shared-lib, which is not among the sources. Its five string values are those
  of the glossary (Draft, Review, WaitingAliasGeneration, Approved, Rejected), which the
  OpenAPI comment of \<open>getMerchants\<close> lists too.
\<close>

fun status_value :: "MerchantRegistrationStatus \<Rightarrow> string" where
  "status_value DRAFT = ''Draft''"
| "status_value REVIEW = ''Review''"
| "status_value WAITINGALIASGENERATION = ''WaitingAliasGeneration''"
| "status_value APPROVED = ''Approved''"
| "status_value REJECTED = ''Rejected''"

definition all_statuses :: "MerchantRegistrationStatus list" where
  "all_statuses = [DRAFT, REVIEW, WAITINGALIASGENERATION, APPROVED, REJECTED]"

text \<open>
  \<open>z.nativeEnum(MerchantRegistrationStatus).parse(v)\<close>: succeeds exactly on the enum's
  values. \<open>None\<close> as argument is a body field that is absent or not a string; \<open>None\<close> as
  result is the ZodError.
\<close>

definition nativeEnum_parse :: "string option \<Rightarrow> MerchantRegistrationStatus option" where
  "nativeEnum_parse v =
     (case v of None \<Rightarrow> None | Some s \<Rightarrow> find (\<lambda>e. status_value e = s) all_statuses)"

text \<open>Only the member \<open>PENDING\<close> of \<open>MerchantAllowBlockStatus\<close> occurs in the handlers.\<close>

datatype MerchantAllowBlockStatus = PENDING | OtherAllowBlockStatus string

text \<open>
  The workflow order of the specification,
  Draft \<open>\<rightarrow>\<close> Review \<open>\<rightarrow>\<close> WaitingAliasGeneration \<open>\<rightarrow>\<close> Approved/Rejected,
  as a successor relation.
\<close>

fun workflow_next :: "MerchantRegistrationStatus \<Rightarrow> MerchantRegistrationStatus \<Rightarrow> bool" where
  "workflow_next DRAFT REVIEW = True"
| "workflow_next REVIEW WAITINGALIASGENERATION = True"
| "workflow_next WAITINGALIASGENERATION APPROVED = True"
| "workflow_next WAITINGALIASGENERATION REJECTED = True"
| "workflow_next _ _ = False"

subsection \<open>Numbers as JavaScript reads them\<close>

text \<open>
  The value of \<open>Number(x)\<close> for a path parameter, a query parameter or an element of
  the \<open>ids\<close> array: not a number, or a number. The conversion itself is JavaScript's and is
  taken as done.
\<close>

datatype js_number = NaN | Num rat

fun isNaN :: "js_number \<Rightarrow> bool" where
  "isNaN NaN = True"
| "isNaN (Num _) = False"

text \<open>\<open>Number(x) < 1\<close> and \<open>Number(x) > 0\<close>: every comparison with NaN is false.\<close>

fun js_less :: "js_number \<Rightarrow> rat \<Rightarrow> bool" where
  "js_less NaN _ = False"
| "js_less (Num q) r = (q < r)"

fun js_greater :: "js_number \<Rightarrow> rat \<Rightarrow> bool" where
  "js_greater NaN _ = False"
| "js_greater (Num q) r = (q > r)"

text \<open>A row's integer key equals the number of a query.\<close>

fun id_is :: "js_number \<Rightarrow> nat \<Rightarrow> bool" where
  "id_is NaN _ = False"
| "id_is (Num q) i = (q = of_nat i)"

subsection \<open>Entities\<close>

record PortalUserEntity =
  user_id :: nat
  user_name :: string
  user_email :: string
  user_phone_number :: string
  user_password :: string

text \<open>
  The columns of a merchant that the handlers read or write. \<open>created_by\<close> and
  \<open>checked_by\<close> are the foreign keys of the two relations to portal users; either may be
  null.
\<close>

record MerchantEntity =
  merchant_id :: nat
  dba_trading_name :: string
  registered_name :: string
  employees_num :: string
  monthly_turnover :: string
  currency_code :: string
  category_code :: string
  merchant_type :: string
  registration_status :: MerchantRegistrationStatus
  registration_status_reason :: string
  allow_block_status :: MerchantAllowBlockStatus
  created_by :: "nat option"
  checked_by :: "nat option"
  created_at :: int
  updated_at :: int

text \<open>
  A checkout counter, as a row (its key is set) or as a fresh
  \<open>new CheckoutCounterEntity()\<close> (key and alias still undefined).
\<close>

record CheckoutCounterEntity =
  counter_id :: "nat option"
  alias_value :: "string option"
  counter_merchant :: "nat option"

record BusinessLicenseEntity =
  license_id :: "nat option"
  license_number :: string
  license_document_link :: "string option"
  license_merchant :: "nat option"

record db =
  merchants :: "MerchantEntity list"
  portal_users :: "PortalUserEntity list"
  checkout_counters :: "CheckoutCounterEntity list"
  business_licenses :: "BusinessLicenseEntity list"

subsection \<open>What a database call may throw\<close>

datatype thrown = QueryFailedError string | TypeError | OtherError string

text \<open>
  The outcome of the calls of one request that may fail: \<open>None\<close> is success. A call
  that the source does not wrap in a \<open>try\<close> (the lookup of the user of a token, the
  reads of \<open>putMerchantDraft\<close> and the delete in its \<open>catch\<close>, the count of the bulk
  approval) is taken to succeed.
\<close>

record io =
  now :: int
  query_result :: "thrown option"
  save_counter_result :: "thrown option"
  save_merchant_result :: "thrown option"
  save_license_result :: "thrown option"
  resave_merchant_result :: "thrown option"
  update_result :: "thrown option"
  delete_result :: "thrown option"
  upload_result :: "thrown + string option"

subsection \<open>Objects in memory and response bodies\<close>

text \<open>
  A portal user as an object of a response: a property that was not selected, or was
  deleted, is \<open>None\<close>.
\<close>

record user_obj =
  uo_id :: nat
  uo_name :: "string option"
  uo_email :: "string option"
  uo_phone_number :: "string option"
  uo_password :: "string option"

text \<open>
  A license object and its \<open>merchant\<close> property. The object graph is cyclic there
  (\<open>license.merchant = merchant\<close>); of the merchant behind the reference the model keeps the
  two user objects it leads to.
\<close>

record license_obj =
  lo_row :: BusinessLicenseEntity
  lo_merchant :: "(user_obj option \<times> user_obj option) option"

record merchant_obj =
  mo_row :: MerchantEntity
  mo_created_by :: "user_obj option"
  mo_checked_by :: "user_obj option"
  mo_checkout_counters :: "CheckoutCounterEntity list"
  mo_business_licenses :: "license_obj list"

datatype body =
    Message string
  | Error string
  | ZodError
  | MessageThrown thrown
  | ErrorThrown thrown
  | MessageData string merchant_obj
  | MessageList string "merchant_obj list"
  | Login bool string "string option"

text \<open>
  A handler answers with a status and a body, or its promise rejects and the request is
  left unanswered.
\<close>

datatype response = Response nat body | Unhandled thrown

fun status_of :: "response \<Rightarrow> nat option" where
  "status_of (Response s _) = Some s"
| "status_of (Unhandled _) = None"

text \<open>An error response: a status of 400 or more.\<close>

fun is_error :: "response \<Rightarrow> bool" where
  "is_error (Response s _) = (400 \<le> s)"
| "is_error (Unhandled _) = False"

text \<open>A whole portal user entity as an object: every column, the password hash included.\<close>

definition entity_obj :: "PortalUserEntity \<Rightarrow> user_obj" where
  "entity_obj u = \<lparr>uo_id = user_id u, uo_name = Some (user_name u), uo_email = Some (user_email u),
     uo_phone_number = Some (user_phone_number u), uo_password = Some (user_password u)\<rparr>"

subsection \<open>Queries\<close>

definition findOne_merchant :: "db \<Rightarrow> js_number \<Rightarrow> MerchantEntity option" where
  "findOne_merchant d n = find (\<lambda>m. id_is n (merchant_id m)) (merchants d)"

definition findOne_user :: "db \<Rightarrow> nat \<Rightarrow> PortalUserEntity option" where
  "findOne_user d i = find (\<lambda>u. user_id u = i) (portal_users d)"

text \<open>A relation loaded with its merchant: the user behind a foreign key, if any.\<close>

definition relation_user :: "db \<Rightarrow> nat option \<Rightarrow> PortalUserEntity option" where
  "relation_user d fk = (case fk of None \<Rightarrow> None | Some i \<Rightarrow> findOne_user d i)"

text \<open>\<open>merchantRepository.save(merchant)\<close> of a merchant that was loaded: an update by key.\<close>

definition save_merchant :: "db \<Rightarrow> MerchantEntity \<Rightarrow> db" where
  "save_merchant d m =
     d\<lparr>merchants := map (\<lambda>r. if merchant_id r = merchant_id m then m else r) (merchants d)\<rparr>"

text \<open>The stored status of the merchant with a given key.\<close>

definition stored_status :: "db \<Rightarrow> nat \<Rightarrow> MerchantRegistrationStatus option" where
  "stored_status d i = map_option registration_status (find (\<lambda>m. merchant_id m = i) (merchants d))"

definition stored_checked_by :: "db \<Rightarrow> nat \<Rightarrow> nat option option" where
  "stored_checked_by d i = map_option checked_by (find (\<lambda>m. merchant_id m = i) (merchants d))"

section \<open>Status changes\<close>

subsection \<open>PUT /merchants/:id/approve\<close>

text \<open>
  \<open>putWaitingAliasGeneration\<close>. The portal user is the result of
  \<open>getAuthenticatedPortalUser\<close> (middleware that is not among the sources). The response
  carries the merchant with \<open>created_by\<close> removed and \<open>checked_by\<close> as it was loaded. An
  error of \<open>save\<close> that is not a QueryFailedError is caught and dropped.
\<close>

definition putWaitingAliasGeneration ::
  "io \<Rightarrow> PortalUserEntity option \<Rightarrow> js_number \<Rightarrow> db \<Rightarrow> response \<times> db" where
  "putWaitingAliasGeneration e portalUser n d =
     (case portalUser of
        None \<Rightarrow> (Response 401 (Message ''Unauthorized''), d)
      | Some u \<Rightarrow>
         if isNaN n then (Response 422 (Message ''Invalid Merchant ID''), d)
         else (case query_result e of
            Some err \<Rightarrow> (Response 500 (MessageThrown err), d)
          | None \<Rightarrow>
            (case findOne_merchant d n of
               None \<Rightarrow> (Response 404 (Message ''Merchant not found''), d)
             | Some merchant \<Rightarrow>
                (case relation_user d (created_by merchant) of
                   None \<Rightarrow> (Response 500 (MessageThrown TypeError), d)
                 | Some creator \<Rightarrow>
                    if user_id u = user_id creator
                    then (Response 400 (Error ''User is not allowed to change status''), d)
                    else if registration_status merchant \<noteq> REVIEW
                    then (Response 401
                      (Error ''Only Review Merchant can be approved with WaitingAliasGeneration''), d)
                    else
                      let merchant' = merchant\<lparr>
                            registration_status := WAITINGALIASGENERATION,
                            registration_status_reason := ''Status Updated to WaitingAliasGeneration''\<rparr>;
                          merchantData = \<lparr>mo_row = merchant', mo_created_by = None,
                            mo_checked_by = map_option entity_obj (relation_user d (checked_by merchant)),
                            mo_checkout_counters = [], mo_business_licenses = []\<rparr>;
                          ok = Response 200 (MessageData ''Status Updated to WaitingAliasGeneration'' merchantData)
                      in (case save_merchant_result e of
                            Some (QueryFailedError msg) \<Rightarrow> (Response 500 (Message msg), d)
                          | Some _ \<Rightarrow> (ok, d)
                          | None \<Rightarrow> (ok, save_merchant d merchant'))))))"

subsection \<open>The placeholder authentication of the routes\<close>

text \<open>
  The environment variables of the two test users, and the token of a request:
  the Authorization header with the first \<open>Bearer\<close> removed, trimmed.
\<close>

record env =
  TEST1_DUMMY_AUTH_TOKEN :: string
  TEST1_EMAIL :: string
  TEST2_DUMMY_AUTH_TOKEN :: string
  TEST2_EMAIL :: string

fun replace_first :: "string \<Rightarrow> string \<Rightarrow> string" where
  "replace_first pat [] = []"
| "replace_first pat (c # cs) =
     (if prefix pat (c # cs) then drop (length pat) (c # cs) else c # replace_first pat cs)"

definition is_space :: "char \<Rightarrow> bool" where
  "is_space c = (c \<in> set [CHR '' '', CHR 0x09, CHR 0x0A, CHR 0x0B, CHR 0x0C, CHR 0x0D])"

definition trim :: "string \<Rightarrow> string" where
  "trim s = rev (dropWhile is_space (rev (dropWhile is_space s)))"

definition token_of :: "string option \<Rightarrow> string option" where
  "token_of authorization = map_option (\<lambda>h. trim (replace_first ''Bearer'' h)) authorization"

definition findOne_user_by_email :: "db \<Rightarrow> string \<Rightarrow> PortalUserEntity option" where
  "findOne_user_by_email d a = find (\<lambda>u. user_email u = a) (portal_users d)"

text \<open>
  \<open>None\<close>: the token is neither of the two, the request is answered 401. \<open>Some None\<close>: the
  token is known and no portal user has the email.
\<close>

definition dummy_auth :: "env \<Rightarrow> db \<Rightarrow> string option \<Rightarrow> PortalUserEntity option option" where
  "dummy_auth v d authorization =
     (let token = token_of authorization in
      if token = Some (TEST1_DUMMY_AUTH_TOKEN v) then Some (findOne_user_by_email d (TEST1_EMAIL v))
      else if token = Some (TEST2_DUMMY_AUTH_TOKEN v) then Some (findOne_user_by_email d (TEST2_EMAIL v))
      else None)"

subsection \<open>PUT /merchants/:id/registration-status\<close>

record status_body =
  sb_registration_status :: "string option"
  sb_registration_status_reason :: string

definition put_registration_status ::
  "env \<Rightarrow> io \<Rightarrow> string option \<Rightarrow> js_number \<Rightarrow> status_body \<Rightarrow> db \<Rightarrow> response \<times> db" where
  "put_registration_status v e authorization n b d =
     (case dummy_auth v d authorization of
        None \<Rightarrow> (Response 401 (Message ''Unauthorized''), d)
      | Some portalUser \<Rightarrow>
         if isNaN n then (Response 422 (Message ''Invalid ID''), d)
         else (case nativeEnum_parse (sb_registration_status b) of
            None \<Rightarrow> (Response 422 ZodError, d)
          | Some new_status \<Rightarrow>
            (case query_result e of
               Some err \<Rightarrow> (Response 500 (MessageThrown err), d)
             | None \<Rightarrow>
               (case findOne_merchant d n of
                  None \<Rightarrow> (Response 404 (Message ''Merchant not found''), d)
                | Some merchant \<Rightarrow>
                   (case portalUser of
                      None \<Rightarrow> (Response 401
                        (Message ''Same Hub User cannot do both Sumitting and Review Checking''), d)
                    | Some u \<Rightarrow>
                       (case relation_user d (created_by merchant) of
                          None \<Rightarrow> (Response 500 (MessageThrown TypeError), d)
                        | Some creator \<Rightarrow>
                           if user_id creator = user_id u
                           then (Response 401
                             (Message ''Same Hub User cannot do both Sumitting and Review Checking''), d)
                           else
                             let merchant' = merchant\<lparr>
                                   registration_status := new_status,
                                   registration_status_reason := sb_registration_status_reason b,
                                   checked_by := Some (user_id u)\<rparr>;
                                 merchantData = \<lparr>mo_row = merchant', mo_created_by = None,
                                   mo_checked_by = None,
                                   mo_checkout_counters = [], mo_business_licenses = []\<rparr>;
                                 ok = Response 200 (MessageData ''Status Updated'' merchantData)
                             in (case save_merchant_result e of
                                   Some (QueryFailedError msg) \<Rightarrow> (Response 500 (Error msg), d)
                                 | Some _ \<Rightarrow> (ok, d)
                                 | None \<Rightarrow> (ok, save_merchant d merchant'))))))))"

subsection \<open>PUT /merchants/bulk-approve\<close>

text \<open>
  The count of the rows whose key is among the ids, whose status is Review and whose
  \<open>created_by\<close> is not the user: in SQL a null \<open>created_by\<close> is not different from anything,
  so a merchant without a creator is not counted.
\<close>

definition bulk_candidate :: "nat \<Rightarrow> js_number list \<Rightarrow> MerchantEntity \<Rightarrow> bool" where
  "bulk_candidate uid ids m =
     ((\<exists>n \<in> set ids. id_is n (merchant_id m)) \<and> registration_status m = REVIEW \<and>
      (case created_by m of None \<Rightarrow> False | Some c \<Rightarrow> c \<noteq> uid))"

definition bulk_count :: "db \<Rightarrow> nat \<Rightarrow> js_number list \<Rightarrow> nat" where
  "bulk_count d uid ids = length (filter (bulk_candidate uid ids) (merchants d))"

definition bulk_update :: "db \<Rightarrow> nat \<Rightarrow> js_number list \<Rightarrow> db" where
  "bulk_update d uid ids =
     d\<lparr>merchants := map (\<lambda>m. if \<exists>n \<in> set ids. id_is n (merchant_id m)
        then m\<lparr>registration_status := WAITINGALIASGENERATION,
               registration_status_reason := ''Bulk Updated to Waiting Alias Generation'',
               checked_by := Some uid\<rparr>
        else m) (merchants d)\<rparr>"

text \<open>
  What the handler asks of the ids, in the words of its answer: each is a number, at
  least 1, and names a merchant in Review that has a creator other than the user.
\<close>

definition bulk_ok :: "db \<Rightarrow> nat \<Rightarrow> js_number list \<Rightarrow> bool" where
  "bulk_ok d uid ids =
     (\<forall>n \<in> set ids. \<not> isNaN n \<and> \<not> js_less n 1 \<and>
        (\<exists>m \<in> set (merchants d). id_is n (merchant_id m) \<and> registration_status m = REVIEW \<and>
           created_by m \<noteq> None \<and> created_by m \<noteq> Some uid))"

text \<open>
  \<open>putBulkWaitingAliasGeneration\<close>; \<open>ids\<close> is the array of the body, each element as
  \<open>Number\<close> reads it (a body whose \<open>ids\<close> is not an array makes the handler throw before any
  answer, and is not a value of this type).
\<close>

definition putBulkWaitingAliasGeneration ::
  "io \<Rightarrow> PortalUserEntity option \<Rightarrow> js_number list \<Rightarrow> db \<Rightarrow> response \<times> db" where
  "putBulkWaitingAliasGeneration e portalUser ids d =
     (case portalUser of
        None \<Rightarrow> (Response 401 (Message ''Unauthorized''), d)
      | Some u \<Rightarrow>
         if \<exists>n \<in> set ids. isNaN n \<or> js_less n 1
         then (Response 422 (Message ''Each ID in the array must be a valid ID number.''), d)
         else if bulk_count d (user_id u) ids \<noteq> length ids
         then (Response 422
           (Message ''All IDs must be valid and have a status of \"Review\". and not created by you''), d)
         else (case update_result e of
            Some err \<Rightarrow> (Response 500 (MessageThrown err), d)
          | None \<Rightarrow>
             (Response 200 (Message ''WAITINGALIASGENERATION Status Updated for multiple merchants''),
              bulk_update d (user_id u) ids)))"

section \<open>Drafts\<close>

subsection \<open>Rows with generated keys\<close>

text \<open>The key of a new row: one more than every key of the table.\<close>

definition fresh_id :: "nat list \<Rightarrow> nat" where
  "fresh_id ks = Suc (fold max ks 0)"

definition counter_keys :: "db \<Rightarrow> nat list" where
  "counter_keys d = List.map_filter counter_id (checkout_counters d)"

definition license_keys :: "db \<Rightarrow> nat list" where
  "license_keys d = List.map_filter license_id (business_licenses d)"

text \<open>
  \<open>manager.save(checkoutCounter)\<close>: an insert when the object has no key yet, an update of
  the row with its key otherwise. The object comes back with its key.
\<close>

definition save_counter :: "db \<Rightarrow> CheckoutCounterEntity \<Rightarrow> db \<times> CheckoutCounterEntity" where
  "save_counter d c =
     (case counter_id c of
        None \<Rightarrow>
          let c' = c\<lparr>counter_id := Some (fresh_id (counter_keys d))\<rparr>
          in (d\<lparr>checkout_counters := checkout_counters d @ [c']\<rparr>, c')
      | Some k \<Rightarrow>
          (d\<lparr>checkout_counters :=
               map (\<lambda>r. if counter_id r = Some k then c else r) (checkout_counters d)\<rparr>, c))"

definition save_license :: "db \<Rightarrow> BusinessLicenseEntity \<Rightarrow> db \<times> BusinessLicenseEntity" where
  "save_license d l =
     (case license_id l of
        None \<Rightarrow>
          let l' = l\<lparr>license_id := Some (fresh_id (license_keys d))\<rparr>
          in (d\<lparr>business_licenses := business_licenses d @ [l']\<rparr>, l')
      | Some k \<Rightarrow>
          (d\<lparr>business_licenses :=
               map (\<lambda>r. if license_id r = Some k then l else r) (business_licenses d)\<rparr>, l))"

text \<open>\<open>manager.delete(CheckoutCounterEntity, id)\<close>.\<close>

definition delete_counter :: "db \<Rightarrow> nat \<Rightarrow> db" where
  "delete_counter d k =
     d\<lparr>checkout_counters := filter (\<lambda>r. counter_id r \<noteq> Some k) (checkout_counters d)\<rparr>"

text \<open>The keys of the checkout counters with their aliases.\<close>

definition key_alias :: "db \<Rightarrow> (nat option \<times> string option) list" where
  "key_alias d = map (\<lambda>r. (counter_id r, alias_value r)) (checkout_counters d)"

text \<open>\<open>manager.delete(BusinessLicenseEntity, { merchant })\<close>.\<close>

definition delete_licenses_of :: "db \<Rightarrow> nat \<Rightarrow> db" where
  "delete_licenses_of d mid =
     d\<lparr>business_licenses := filter (\<lambda>r. license_merchant r \<noteq> Some mid) (business_licenses d)\<rparr>"

text \<open>The relations \<open>checkout_counters\<close> and \<open>business_licenses\<close> as they are loaded.\<close>

definition counters_of :: "db \<Rightarrow> nat \<Rightarrow> CheckoutCounterEntity list" where
  "counters_of d mid = filter (\<lambda>r. counter_merchant r = Some mid) (checkout_counters d)"

definition licenses_of :: "db \<Rightarrow> nat \<Rightarrow> BusinessLicenseEntity list" where
  "licenses_of d mid = filter (\<lambda>r. license_merchant r = Some mid) (business_licenses d)"

text \<open>
  Saving a merchant whose one-to-many array was assigned: the ORM points the rows of
  the array's saved members to the merchant, and nulls the reference of the rows that
  pointed to the merchant and are no longer in the array. A member without a key is
  skipped.
\<close>

definition link_counters :: "nat \<Rightarrow> CheckoutCounterEntity list \<Rightarrow> db \<Rightarrow> db" where
  "link_counters mid cs d =
     d\<lparr>checkout_counters := map (\<lambda>r.
          if counter_id r \<in> set (map counter_id (filter (\<lambda>c. counter_id c \<noteq> None) cs))
          then r\<lparr>counter_merchant := Some mid\<rparr>
          else if counter_merchant r = Some mid then r\<lparr>counter_merchant := None\<rparr>
          else r) (checkout_counters d)\<rparr>"

definition link_licenses :: "nat \<Rightarrow> BusinessLicenseEntity list \<Rightarrow> db \<Rightarrow> db" where
  "link_licenses mid ls d =
     d\<lparr>business_licenses := map (\<lambda>r.
          if license_id r \<in> set (map license_id (filter (\<lambda>l. license_id l \<noteq> None) ls))
          then r\<lparr>license_merchant := Some mid\<rparr>
          else if license_merchant r = Some mid then r\<lparr>license_merchant := None\<rparr>
          else r) (business_licenses d)\<rparr>"

text \<open>\<open>merchantRepository.save\<close> of a merchant made by \<open>create()\<close>: an insert.\<close>

definition insert_merchant :: "db \<Rightarrow> MerchantEntity \<Rightarrow> db \<times> MerchantEntity" where
  "insert_merchant d m =
     (let m' = m\<lparr>merchant_id := fresh_id (map merchant_id (merchants d))\<rparr>
      in (d\<lparr>merchants := merchants d @ [m']\<rparr>, m'))"

subsection \<open>The body of a draft\<close>

text \<open>
  The fields of \<open>req.body\<close> that the draft handlers read. \<open>b_payinto_alias\<close> is \<open>None\<close> when
  the field is absent (undefined or null); \<open>b_business_licenses\<close> is \<open>None\<close> when the field is not
  an array.
\<close>

record merchant_submit_body =
  b_dba_trading_name :: string
  b_registered_name :: string
  b_employees_num :: string
  b_monthly_turnover :: string
  b_currency_code :: string
  b_category_code :: string
  b_merchant_type :: string
  b_payinto_alias :: "string option"
  b_registration_status :: "string option"
  b_registration_status_reason :: string
  b_license_number :: string
  b_business_licenses :: "(string \<times> string option) list option"

text \<open>
  Modelled from the spec: \<open>MerchantSubmitDataSchema\<close> is declared in \<open>./schemas\<close>, which is
  not among the sources. Its verdict on a body is a parameter of the handlers; on
  \<open>registration_status\<close> it is taken to accept the five values of the enum of the glossary
  and nothing else, the status fields of the entities being enum-valued (section 3 of the
  specification).
\<close>

definition submit_parse ::
  "(merchant_submit_body \<Rightarrow> bool) \<Rightarrow> merchant_submit_body \<Rightarrow> MerchantRegistrationStatus option" where
  "submit_parse MerchantSubmitDataSchema b =
     (if MerchantSubmitDataSchema b then nativeEnum_parse (b_registration_status b) else None)"

text \<open>\<open>findOne\<close> and \<open>exists\<close> of a checkout counter by its alias. A \<open>where\<close> whose value is
  undefined restricts nothing.\<close>

definition findOne_counter_by_alias :: "db \<Rightarrow> string \<Rightarrow> CheckoutCounterEntity option" where
  "findOne_counter_by_alias d a = find (\<lambda>r. alias_value r = Some a) (checkout_counters d)"

definition exists_alias :: "db \<Rightarrow> string option \<Rightarrow> bool" where
  "exists_alias d alias =
     (case alias of
        None \<Rightarrow> checkout_counters d \<noteq> []
      | Some a \<Rightarrow> (\<exists>r \<in> set (checkout_counters d). alias_value r = Some a))"

definition new_counter :: CheckoutCounterEntity where
  "new_counter = \<lparr>counter_id = None, alias_value = None, counter_merchant = None\<rparr>"

definition new_license :: BusinessLicenseEntity where
  "new_license = \<lparr>license_id = None, license_number = [], license_document_link = None,
     license_merchant = None\<rparr>"

text \<open>The assignments of the body's fields to the merchant, as the handlers share them.\<close>

definition assign_body ::
  "merchant_submit_body \<Rightarrow> MerchantRegistrationStatus \<Rightarrow> MerchantEntity \<Rightarrow> MerchantEntity" where
  "assign_body b st m = m\<lparr>
     dba_trading_name := b_dba_trading_name b,
     registered_name := b_registered_name b,
     employees_num := b_employees_num b,
     monthly_turnover := b_monthly_turnover b,
     currency_code := b_currency_code b,
     category_code := b_category_code b,
     merchant_type := b_merchant_type b,
     registration_status := st,
     registration_status_reason := b_registration_status_reason b,
     allow_block_status := PENDING\<rparr>"

text \<open>A license object without its \<open>merchant\<close> property.\<close>

definition license_data :: "license_obj \<Rightarrow> license_obj" where
  "license_data l = l\<lparr>lo_merchant := None\<rparr>"

definition loaded_license :: "BusinessLicenseEntity \<Rightarrow> license_obj" where
  "loaded_license r = \<lparr>lo_row = r, lo_merchant = None\<rparr>"

text \<open>The answer of the \<open>catch\<close> of the two draft handlers.\<close>

definition draft_failure :: "thrown \<Rightarrow> response" where
  "draft_failure err =
     (case err of
        QueryFailedError msg \<Rightarrow> Response 500 (Error msg)
      | _ \<Rightarrow> Response 500 (ErrorThrown err))"

text \<open>
  Saving a merchant together with the one-to-many arrays it carries; \<open>None\<close> is an array
  that is undefined (the relation was not loaded and not assigned).
\<close>

definition save_merchant_with ::
  "db \<Rightarrow> MerchantEntity \<Rightarrow> CheckoutCounterEntity list option \<Rightarrow>
   BusinessLicenseEntity list option \<Rightarrow> db" where
  "save_merchant_with d m cs ls =
     (let d1 = save_merchant d m;
          d2 = (case cs of None \<Rightarrow> d1 | Some c \<Rightarrow> link_counters (merchant_id m) c d1)
      in (case ls of None \<Rightarrow> d2 | Some l \<Rightarrow> link_licenses (merchant_id m) l d2))"

definition option_list :: "'a option \<Rightarrow> 'a list" where
  "option_list x = (case x of None \<Rightarrow> [] | Some y \<Rightarrow> [y])"

subsection \<open>POST /merchants/draft\<close>

text \<open>
  The checkout counter of a new draft: none when the alias is undefined, null or empty;
  422 when a counter has the alias already; a new counter otherwise. An error of its
  \<open>save\<close> that is not a QueryFailedError is caught and dropped, and the counter stays
  without a key.
\<close>

definition draft_new_counter ::
  "io \<Rightarrow> merchant_submit_body \<Rightarrow> db \<Rightarrow>
   (response \<times> db) + (db \<times> CheckoutCounterEntity option)" where
  "draft_new_counter e b d =
     (case b_payinto_alias b of
        None \<Rightarrow> Inr (d, None)
      | Some alias \<Rightarrow>
         if alias = [] then Inr (d, None)
         else (case findOne_counter_by_alias d alias of
            Some found \<Rightarrow>
              Inl (Response 422 (Error (''Alias Value already exists: '' @ alias @ '' '')), d)
          | None \<Rightarrow>
             let checkoutCounter = new_counter\<lparr>alias_value := Some alias\<rparr>
             in (case save_counter_result e of
                   Some (QueryFailedError msg) \<Rightarrow> Inl (Response 500 (Error msg), d)
                 | Some _ \<Rightarrow> Inr (d, Some checkoutCounter)
                 | None \<Rightarrow>
                    (case save_counter d checkoutCounter of
                       (d1, saved) \<Rightarrow> Inr (d1, Some saved)))))"

text \<open>
  The \<open>try\<close> of the handler: the merchant is inserted; with a file, the document is
  uploaded, the license saved and the merchant saved again. Whatever is thrown is answered
  500, and what was written before stays written.
\<close>

definition post_draft_save ::
  "io \<Rightarrow> merchant_submit_body \<Rightarrow> bool \<Rightarrow> PortalUserEntity option \<Rightarrow> MerchantEntity \<Rightarrow>
   CheckoutCounterEntity option \<Rightarrow> db \<Rightarrow> response \<times> db" where
  "post_draft_save e b file portalUser merchant checkoutCounter d =
     (case save_merchant_result e of
        Some err \<Rightarrow> (draft_failure err, d)
      | None \<Rightarrow>
         (case insert_merchant d merchant of (d1, m1) \<Rightarrow>
          let cs = map_option (\<lambda>c. [c]) checkoutCounter;
              d2 = save_merchant_with d1 m1 cs None;
              ok = (\<lambda>licenses. Response 201 (MessageData ''Drafting Merchant Successful''
                     \<lparr>mo_row = m1, mo_created_by = None, mo_checked_by = None,
                      mo_checkout_counters = option_list checkoutCounter,
                      mo_business_licenses = map license_data licenses\<rparr>))
          in if \<not> file then (ok [], d2)
             else (case upload_result e of
                Inl err \<Rightarrow> (draft_failure err, d2)
              | Inr None \<Rightarrow> (ok [], d2)
              | Inr (Some documentPath) \<Rightarrow>
                 let license = new_license\<lparr>license_number := b_license_number b,
                       license_document_link := Some documentPath,
                       license_merchant := Some (merchant_id m1)\<rparr>
                 in (case save_license_result e of
                       Some err \<Rightarrow> (draft_failure err, d2)
                     | None \<Rightarrow>
                        (case save_license d2 license of (d3, l1) \<Rightarrow>
                           (case resave_merchant_result e of
                              Some err \<Rightarrow> (draft_failure err, d3)
                            | None \<Rightarrow>
                               (ok [\<lparr>lo_row = l1, lo_merchant =
                                      Some (map_option entity_obj portalUser, None)\<rparr>],
                                save_merchant_with d3 m1 cs (Some [l1]))))))))"

definition post_merchants_draft ::
  "env \<Rightarrow> io \<Rightarrow> (merchant_submit_body \<Rightarrow> bool) \<Rightarrow> string option \<Rightarrow> merchant_submit_body \<Rightarrow>
   bool \<Rightarrow> db \<Rightarrow> response \<times> db" where
  "post_merchants_draft v e MerchantSubmitDataSchema authorization b file d =
     (case dummy_auth v d authorization of
        None \<Rightarrow> (Response 401 (Message ''Unauthorized''), d)
      | Some portalUser \<Rightarrow>
         (case submit_parse MerchantSubmitDataSchema b of
            None \<Rightarrow> (Response 422 ZodError, d)
          | Some st \<Rightarrow>
             (case draft_new_counter e b d of
                Inl answer \<Rightarrow> answer
              | Inr (d1, checkoutCounter) \<Rightarrow>
                 let merchant = assign_body b st
                       \<lparr>merchant_id = 0, dba_trading_name = [], registered_name = [],
                        employees_num = [], monthly_turnover = [], currency_code = [],
                        category_code = [], merchant_type = [], registration_status = st,
                        registration_status_reason = [], allow_block_status = PENDING,
                        created_by = map_option user_id portalUser, checked_by = None,
                        created_at = now e, updated_at = now e\<rparr>
                 in post_draft_save e b file portalUser merchant checkoutCounter d1)))"

subsection \<open>PUT /merchants/:id/draft\<close>

text \<open>
  The checkout counter of \<open>putMerchantDraft\<close>: the merchant's own one when it has exactly
  one, a new one otherwise. Only when its alias differs from the alias of the body is the
  alias looked up (422 when a counter has it) and the counter saved.
\<close>

definition own_counter :: "db \<Rightarrow> MerchantEntity \<Rightarrow> CheckoutCounterEntity" where
  "own_counter d merchant =
     (case counters_of d (merchant_id merchant) of [c] \<Rightarrow> c | _ \<Rightarrow> new_counter)"

definition draft_counter ::
  "io \<Rightarrow> merchant_submit_body \<Rightarrow> MerchantEntity \<Rightarrow> db \<Rightarrow>
   (response \<times> db) + (db \<times> CheckoutCounterEntity)" where
  "draft_counter e b merchant d =
     (let checkoutCounter = own_counter d merchant;
          alias = b_payinto_alias b
      in if alias_value checkoutCounter \<noteq> alias
         then if exists_alias d alias
              then Inl (Response 422
                (Error (''PayInto Alias Value already exists: '' @ (case alias of None \<Rightarrow> ''undefined'' | Some a \<Rightarrow> a))), d)
              else (case save_counter_result e of
                      Some (QueryFailedError msg) \<Rightarrow> Inl (Response 500 (Error msg), d)
                    | Some _ \<Rightarrow> Inr (d, checkoutCounter\<lparr>alias_value := alias\<rparr>)
                    | None \<Rightarrow> Inr (save_counter d (checkoutCounter\<lparr>alias_value := alias\<rparr>)))
         else Inr (d, checkoutCounter))"

text \<open>
  The \<open>catch\<close> of \<open>putMerchantDraft\<close>: the checkout counter is deleted by its key, then the
  answer is 500. A counter without a key makes \<open>delete\<close> reject (the ORM refuses an
  empty criterion), and the request is left unanswered.
\<close>

definition draft_revert :: "thrown \<Rightarrow> CheckoutCounterEntity \<Rightarrow> db \<Rightarrow> response \<times> db" where
  "draft_revert err checkoutCounter d =
     (case counter_id checkoutCounter of
        None \<Rightarrow> (Unhandled (OtherError ''Empty criteria(s) are not allowed for the delete method.''), d)
      | Some k \<Rightarrow> (draft_failure err, delete_counter d k))"

text \<open>
  The \<open>try\<close> of \<open>putMerchantDraft\<close>. The license is the first of the merchant's, or a new
  one; it gets the license number and the reference to the merchant in memory, and is
  saved only when a document was uploaded.
\<close>

definition put_draft_save ::
  "io \<Rightarrow> merchant_submit_body \<Rightarrow> bool \<Rightarrow> PortalUserEntity option \<Rightarrow> MerchantEntity \<Rightarrow>
   CheckoutCounterEntity \<Rightarrow> db \<Rightarrow> response \<times> db" where
  "put_draft_save e b file portalUser merchant checkoutCounter d =
     (let mid = merchant_id merchant;
          loaded = licenses_of d mid;
          back = Some (map_option entity_obj portalUser, None);
          ok = (\<lambda>licenses. Response 201 (MessageData ''Updating Merchant Draft Successful''
                 \<lparr>mo_row = merchant, mo_created_by = None, mo_checked_by = None,
                  mo_checkout_counters = [checkoutCounter],
                  mo_business_licenses = map license_data licenses\<rparr>))
      in case save_merchant_result e of
           Some err \<Rightarrow> draft_revert err checkoutCounter d
         | None \<Rightarrow>
            let d1 = save_merchant_with d merchant (Some [checkoutCounter]) (Some loaded);
                license = (case loaded of [] \<Rightarrow> new_license | l # _ \<Rightarrow> l)
                   \<lparr>license_number := b_license_number b, license_merchant := Some mid\<rparr>;
                in_memory = (case loaded of [] \<Rightarrow> []
                   | _ # rest \<Rightarrow> \<lparr>lo_row = license, lo_merchant = back\<rparr> # map loaded_license rest)
            in if \<not> file then (ok in_memory, d1)
               else (case upload_result e of
                  Inl err \<Rightarrow> draft_revert err checkoutCounter d1
                | Inr None \<Rightarrow> (ok in_memory, d1)
                | Inr (Some documentPath) \<Rightarrow>
                   (case save_license_result e of
                      Some err \<Rightarrow> draft_revert err checkoutCounter d1
                    | None \<Rightarrow>
                       (case save_license d1 (license\<lparr>license_document_link := Some documentPath\<rparr>) of
                          (d2, l1) \<Rightarrow>
                            (case resave_merchant_result e of
                               Some err \<Rightarrow> draft_revert err checkoutCounter d2
                             | None \<Rightarrow>
                                (ok [\<lparr>lo_row = l1, lo_merchant = back\<rparr>],
                                 save_merchant_with d2 merchant (Some [checkoutCounter]) (Some [l1])))))))"

definition putMerchantDraft ::
  "env \<Rightarrow> io \<Rightarrow> (merchant_submit_body \<Rightarrow> bool) \<Rightarrow> string option \<Rightarrow> js_number \<Rightarrow>
   merchant_submit_body \<Rightarrow> bool \<Rightarrow> db \<Rightarrow> response \<times> db" where
  "putMerchantDraft v e MerchantSubmitDataSchema authorization n b file d =
     (case dummy_auth v d authorization of
        None \<Rightarrow> (Response 401 (Message ''Unauthorized''), d)
      | Some portalUser \<Rightarrow>
         (case submit_parse MerchantSubmitDataSchema b of
            None \<Rightarrow> (Response 422 ZodError, d)
          | Some st \<Rightarrow>
             if isNaN n then (Response 422 (Message ''Invalid ID''), d)
             else (case findOne_merchant d n of
                None \<Rightarrow> (Response 422 (Error ''Merchant ID does not exist''), d)
              | Some merchant \<Rightarrow>
                 if registration_status merchant \<noteq> DRAFT
                 then (Response 422 (Error (''Merchant is not in Draft Status. Current Status: '' @
                         status_value (registration_status merchant))), d)
                 else (case draft_counter e b merchant d of
                    Inl answer \<Rightarrow> answer
                  | Inr (d1, checkoutCounter) \<Rightarrow>
                     let merchant' = (assign_body b st merchant)
                           \<lparr>created_by := (case portalUser of
                                None \<Rightarrow> created_by merchant
                              | Some u \<Rightarrow> Some (user_id u))\<rparr>
                     in put_draft_save e b file portalUser merchant' checkoutCounter d1))))"

subsection \<open>PUT /merchants/draft/:id/update\<close>

text \<open>
  The checkout counter of the older draft update: the first of the merchant's counters
  gets the alias, whatever it is; only a merchant without a counter has the alias looked
  up. Whatever a \<open>save\<close> throws here goes to the \<open>catch\<close> of the handler.
\<close>

definition update_counter ::
  "io \<Rightarrow> merchant_submit_body \<Rightarrow> MerchantEntity \<Rightarrow> db \<Rightarrow>
   (response \<times> db) + (db \<times> CheckoutCounterEntity list)" where
  "update_counter e b merchant d =
     (let own = counters_of d (merchant_id merchant) in
      case b_payinto_alias b of
        None \<Rightarrow> Inr (d, own)
      | Some alias \<Rightarrow>
         if alias = [] then Inr (d, own)
         else (case own of
            c # rest \<Rightarrow>
              (case save_counter_result e of
                 Some err \<Rightarrow> Inl (Response 500 (MessageThrown err), d)
               | None \<Rightarrow>
                  (case save_counter d (c\<lparr>alias_value := Some alias\<rparr>) of
                     (d1, c1) \<Rightarrow> Inr (d1, c1 # rest)))
          | [] \<Rightarrow>
              (case findOne_counter_by_alias d alias of
                 Some found \<Rightarrow>
                   Inl (Response 422 (Error (''Alias Value already exists: '' @ alias @ '' '')), d)
               | None \<Rightarrow>
                  (case save_counter_result e of
                     Some err \<Rightarrow> Inl (Response 500 (MessageThrown err), d)
                   | None \<Rightarrow>
                      (case save_counter d (new_counter\<lparr>alias_value := Some alias,
                              counter_merchant := Some (merchant_id merchant)\<rparr>) of
                         (d1, c1) \<Rightarrow> Inr (d1, []))))))"

text \<open>The loop over \<open>req.body.business_licenses\<close>: each license is inserted, without a merchant.\<close>

fun save_licenses ::
  "db \<Rightarrow> (string \<times> string option) list \<Rightarrow> db \<times> BusinessLicenseEntity list" where
  "save_licenses d [] = (d, [])"
| "save_licenses d ((num, link) # rest) =
     (case save_license d (new_license\<lparr>license_number := num, license_document_link := link\<rparr>) of
        (d1, l1) \<Rightarrow> (case save_licenses d1 rest of (d2, ls) \<Rightarrow> (d2, l1 # ls)))"

text \<open>
  The licenses of the older draft update. A \<open>delete\<close> that throws, a body without an array
  of licenses and a license \<open>save\<close> that throws (the first one, when it does) go to the
  \<open>catch\<close> of the handler; what was written before stays written.
\<close>

definition update_licenses ::
  "io \<Rightarrow> merchant_submit_body \<Rightarrow> MerchantEntity \<Rightarrow> db \<Rightarrow>
   (response \<times> db) + (db \<times> BusinessLicenseEntity list)" where
  "update_licenses e b merchant d =
     (let loaded = licenses_of d (merchant_id merchant) in
      case delete_result e of
        Some err \<Rightarrow> Inl (Response 500 (MessageThrown err), d)
      | None \<Rightarrow>
         let d1 = delete_licenses_of d (merchant_id merchant) in
         (case b_business_licenses b of
            None \<Rightarrow> Inl (Response 500 (MessageThrown TypeError), d1)
          | Some [] \<Rightarrow> Inr (d1, loaded)
          | Some entries \<Rightarrow>
             (case save_license_result e of
                Some err \<Rightarrow> Inl (Response 500 (MessageThrown err), d1)
              | None \<Rightarrow> Inr (save_licenses d1 entries))))"

definition put_draft_update ::
  "env \<Rightarrow> io \<Rightarrow> (merchant_submit_body \<Rightarrow> bool) \<Rightarrow> string option \<Rightarrow> js_number \<Rightarrow>
   merchant_submit_body \<Rightarrow> db \<Rightarrow> response \<times> db" where
  "put_draft_update v e MerchantSubmitDataSchema authorization n b d =
     (case dummy_auth v d authorization of
        None \<Rightarrow> (Response 401 (Message ''Unauthorized''), d)
      | Some portalUser \<Rightarrow>
         if \<not> MerchantSubmitDataSchema b then (Response 422 ZodError, d)
         else if isNaN n then (Response 422 (Message ''Invalid ID''), d)
         else (case nativeEnum_parse (b_registration_status b) of
            None \<Rightarrow> (Response 422 ZodError, d)
          | Some st \<Rightarrow>
            (case query_result e of
               Some err \<Rightarrow> (Response 500 (MessageThrown err), d)
             | None \<Rightarrow>
               (case findOne_merchant d n of
                  None \<Rightarrow> (Response 404 (Message ''Merchant not found''), d)
                | Some merchant \<Rightarrow>
                   (case portalUser of
                      None \<Rightarrow> (Response 401 (Message ''User not found!. Unauthorized''), d)
                    | Some u \<Rightarrow>
                       (case relation_user d (created_by merchant) of
                          None \<Rightarrow> (Response 500 (MessageThrown TypeError), d)
                        | Some creator \<Rightarrow>
                           if user_id creator \<noteq> user_id u
                           then (Response 401 (Message ''Only The Same Drafted User is allowed.''), d)
                           else
                             let merchant' = merchant\<lparr>
                                   dba_trading_name := b_dba_trading_name b,
                                   registered_name := b_registered_name b,
                                   employees_num := b_employees_num b,
                                   monthly_turnover := b_monthly_turnover b,
                                   currency_code := b_currency_code b,
                                   category_code := b_category_code b,
                                   registration_status := st,
                                   registration_status_reason := status_value DRAFT,
                                   allow_block_status := PENDING\<rparr>
                             in (case update_counter e b merchant' d of
                                   Inl answer \<Rightarrow> answer
                                 | Inr (d1, counters) \<Rightarrow>
                                    (case update_licenses e b merchant' d1 of
                                       Inl answer \<Rightarrow> answer
                                     | Inr (d2, licenses) \<Rightarrow>
                                        let ok = Response 200 (MessageData ''Status Updated''
                                              \<lparr>mo_row = merchant', mo_created_by = None,
                                               mo_checked_by = None,
                                               mo_checkout_counters = counters,
                                               mo_business_licenses = map loaded_license licenses\<rparr>)
                                        in (case save_merchant_result e of
                                              Some (QueryFailedError msg) \<Rightarrow>
                                                (Response 500 (Error msg), d2)
                                            | Some _ \<Rightarrow> (ok, d2)
                                            | None \<Rightarrow>
                                               (ok, save_merchant_with d2 merchant'
                                                  (Some counters) (Some licenses)))))))))))"

section \<open>Reading merchants\<close>

subsection \<open>SQL's LIKE, dates, and what the platform decides\<close>

text \<open>
  \<open>LIKE\<close> with its two wildcards: \<open>%\<close> stands for any run of characters, \<open>_\<close> for any one
  character. Every other character of the pattern is compared with a character of the
  text by the collation of the column, \<open>same\<close>, which belongs to the database and not to
  the sources.
\<close>

fun sql_like :: "(char \<Rightarrow> char \<Rightarrow> bool) \<Rightarrow> string \<Rightarrow> string \<Rightarrow> bool" where
  "sql_like same [] [] = True"
| "sql_like same [] (c # cs) = False"
| "sql_like same (p # ps) [] = (p = CHR ''%'' \<and> sql_like same ps [])"
| "sql_like same (p # ps) (c # cs) =
     (if p = CHR ''%'' then sql_like same ps (c # cs) \<or> sql_like same (p # ps) cs
      else (p = CHR ''_'' \<or> same p c) \<and> sql_like same ps cs)"

text \<open>
  Times are milliseconds since the epoch. Three things that \<open>getMerchants\<close> relies on are
  not in the sources: \<open>Date_parse\<close> is \<open>new Date(s)\<close> followed by \<open>isValidDate\<close> (of the
  utilities), the time of a string that is a date and \<open>None\<close> otherwise; \<open>setHours t h m s ms\<close>
  is the time that \<open>setHours(h, m, s, ms)\<close> gives a date of time \<open>t\<close>, that hour of the
  day of \<open>t\<close> in the local time of the server; \<open>collation\<close> is the comparison of characters
  by \<open>LIKE\<close>.
\<close>

record platform =
  Date_parse :: "string \<Rightarrow> int option"
  setHours :: "int \<Rightarrow> int \<Rightarrow> int \<Rightarrow> int \<Rightarrow> int \<Rightarrow> int"
  collation :: "char \<Rightarrow> char \<Rightarrow> bool"

text \<open>
  Two instances. In a zone that stays \<open>offset\<close> milliseconds east of UTC, without daylight
  saving time, every local day has 24 hours and \<open>setHours\<close> is arithmetic. The collation
  \<open>NOCASE\<close>, which \<open>LIKE\<close> uses by default in SQLite (and which the default collations of
  MySQL agree with on ASCII), ignores the case of the letters A to Z.
\<close>

definition day_ms :: int where
  "day_ms = 86400000"

definition fixed_zone_setHours :: "int \<Rightarrow> int \<Rightarrow> int \<Rightarrow> int \<Rightarrow> int \<Rightarrow> int \<Rightarrow> int" where
  "fixed_zone_setHours offset t h m s ms =
     ((t + offset) div day_ms) * day_ms - offset + ((h * 60 + m) * 60 + s) * 1000 + ms"

definition ascii_lower :: "char \<Rightarrow> char" where
  "ascii_lower c =
     (case map_of (zip ''ABCDEFGHIJKLMNOPQRSTUVWXYZ'' ''abcdefghijklmnopqrstuvwxyz'') c of
        None \<Rightarrow> c
      | Some l \<Rightarrow> l)"

definition nocase :: "char \<Rightarrow> char \<Rightarrow> bool" where
  "nocase a b = (ascii_lower a = ascii_lower b)"

subsection \<open>GET /merchants\<close>

text \<open>
  The query string. The three numeric fields are given as \<open>Number\<close> reads them; a field
  that must be a string for the handler to use it is \<open>None\<close> when it is absent or is not
  a string.
\<close>

record merchants_query =
  q_addedBy :: js_number
  q_approvedBy :: js_number
  q_addedTime :: "string option"
  q_updatedTime :: "string option"
  q_dbaName :: "string option"
  q_merchantId :: js_number
  q_payintoId :: "string option"
  q_registrationStatus :: "string option"

record where_clause =
  w_created_by :: "nat option"
  w_checked_by :: "nat option"
  w_id :: "js_number option"
  w_registration_status :: "string option"

definition findOne_user_by_number :: "db \<Rightarrow> js_number \<Rightarrow> PortalUserEntity option" where
  "findOne_user_by_number d n = find (\<lambda>u. id_is n (user_id u)) (portal_users d)"

text \<open>A field that is a string and is not empty.\<close>

definition given :: "string option \<Rightarrow> string option" where
  "given s = (case s of None \<Rightarrow> None | Some x \<Rightarrow> if x = [] then None else Some x)"

text \<open>
  The where clause as the handler builds it. The payinto id is looked up after the
  merchant id and overwrites it; a counter without a merchant makes the handler throw
  (\<open>None\<close>).
\<close>

definition build_where :: "db \<Rightarrow> merchants_query \<Rightarrow> where_clause option" where
  "build_where d q =
     (let w0 = \<lparr>w_created_by = None, w_checked_by = None, w_id = None,
                w_registration_status = None\<rparr>;
          w1 = (if \<not> isNaN (q_addedBy q) \<and> js_greater (q_addedBy q) 0
                then (case findOne_user_by_number d (q_addedBy q) of
                        None \<Rightarrow> w0 | Some user \<Rightarrow> w0\<lparr>w_created_by := Some (user_id user)\<rparr>)
                else w0);
          w2 = (if \<not> isNaN (q_approvedBy q) \<and> js_greater (q_approvedBy q) 0
                then (case findOne_user_by_number d (q_approvedBy q) of
                        None \<Rightarrow> w1 | Some user \<Rightarrow> w1\<lparr>w_checked_by := Some (user_id user)\<rparr>)
                else w1);
          w3 = (if \<not> isNaN (q_merchantId q) \<and> js_greater (q_merchantId q) 0
                then w2\<lparr>w_id := Some (q_merchantId q)\<rparr> else w2);
          w4 = (case given (q_payintoId q) of
                  None \<Rightarrow> Some w3
                | Some payintoId \<Rightarrow>
                   (case findOne_counter_by_alias d payintoId of
                      None \<Rightarrow> Some w3
                    | Some checkoutCounter \<Rightarrow>
                       (case counter_merchant checkoutCounter of
                          None \<Rightarrow> None
                        | Some k \<Rightarrow>
                           if k \<in> set (map merchant_id (merchants d))
                           then Some (w3\<lparr>w_id := Some (Num (of_nat k))\<rparr>) else None)))
      in map_option (\<lambda>w. case given (q_registrationStatus q) of
                         None \<Rightarrow> w
                       | Some registrationStatus \<Rightarrow>
                          w\<lparr>w_registration_status := Some registrationStatus\<rparr>) w4)"

definition where_holds :: "where_clause \<Rightarrow> MerchantEntity \<Rightarrow> bool" where
  "where_holds w m =
     ((case w_created_by w of None \<Rightarrow> True | Some u \<Rightarrow> created_by m = Some u) \<and>
      (case w_checked_by w of None \<Rightarrow> True | Some u \<Rightarrow> checked_by m = Some u) \<and>
      (case w_id w of None \<Rightarrow> True | Some n \<Rightarrow> id_is n (merchant_id m)) \<and>
      (case w_registration_status w of None \<Rightarrow> True
       | Some s \<Rightarrow> status_value (registration_status m) = s))"

text \<open>
  The two \<open>andWhere\<close> on a day: between \<open>setHours(0, 0, 0, 0)\<close> and
  \<open>setHours(23, 59, 59, 999)\<close> of the date, when the string is a date.
\<close>

definition on_day :: "platform \<Rightarrow> string option \<Rightarrow> int \<Rightarrow> bool" where
  "on_day p s t =
     (case given s of
        None \<Rightarrow> True
      | Some x \<Rightarrow>
         (case Date_parse p x of
            None \<Rightarrow> True
          | Some day \<Rightarrow>
             let startOfDay = setHours p day 0 0 0 0;
                 endOfDay = setHours p day 23 59 59 999
             in startOfDay \<le> t \<and> t \<le> endOfDay))"

definition name_like :: "platform \<Rightarrow> string option \<Rightarrow> string \<Rightarrow> bool" where
  "name_like p dbaName nm =
     (case given dbaName of
        None \<Rightarrow> True
      | Some x \<Rightarrow> sql_like (collation p) (CHR ''%'' # x @ ''%'') nm)"

text \<open>\<open>ORDER BY merchant.created_at DESC\<close>.\<close>

definition order_by_created_at_desc :: "MerchantEntity list \<Rightarrow> MerchantEntity list" where
  "order_by_created_at_desc ms = sort_key (\<lambda>m. - created_at m) ms"

text \<open>
  A merchant of the result: of the two users the query selects the key and the name,
  and the handler then deletes \<open>password\<close> (with the two dates, which the model does not
  carry); of the counters it selects the alias.
\<close>

definition selected_user :: "PortalUserEntity \<Rightarrow> user_obj" where
  "selected_user u = \<lparr>uo_id = user_id u, uo_name = Some (user_name u), uo_email = None,
     uo_phone_number = None, uo_password = None\<rparr>"

definition delete_password :: "user_obj \<Rightarrow> user_obj" where
  "delete_password u = u\<lparr>uo_password := None\<rparr>"

definition listed_merchant :: "db \<Rightarrow> MerchantEntity \<Rightarrow> merchant_obj" where
  "listed_merchant d m =
     \<lparr>mo_row = m,
      mo_created_by = map_option (delete_password \<circ> selected_user) (relation_user d (created_by m)),
      mo_checked_by = map_option (delete_password \<circ> selected_user) (relation_user d (checked_by m)),
      mo_checkout_counters =
        map (\<lambda>c. \<lparr>counter_id = None, alias_value = alias_value c, counter_merchant = None\<rparr>)
          (counters_of d (merchant_id m)),
      mo_business_licenses = []\<rparr>"

definition getMerchants ::
  "io \<Rightarrow> platform \<Rightarrow> PortalUserEntity option \<Rightarrow> merchants_query \<Rightarrow> db \<Rightarrow> response" where
  "getMerchants e p portalUser q d =
     (case portalUser of
        None \<Rightarrow> Response 401 (Message ''Unauthorized'')
      | Some u \<Rightarrow>
         (case query_result e of
            Some err \<Rightarrow> Response 500 (MessageThrown err)
          | None \<Rightarrow>
             (case build_where d q of
                None \<Rightarrow> Response 500 (MessageThrown TypeError)
              | Some whereClause \<Rightarrow>
                 let result = order_by_created_at_desc
                       (filter (\<lambda>m. where_holds whereClause m \<and>
                                    name_like p (q_dbaName q) (dba_trading_name m) \<and>
                                    on_day p (q_addedTime q) (created_at m) \<and>
                                    on_day p (q_updatedTime q) (updated_at m))
                          (merchants d))
                 in Response 200 (MessageList ''OK'' (map (listed_merchant d) result)))))"

text \<open>
  A name without a wildcard of LIKE (and without the backslash, which some engines read
  as an escape).
\<close>

definition plain :: "string \<Rightarrow> bool" where
  "plain s = (\<forall>c \<in> set s. c \<noteq> CHR ''%'' \<and> c \<noteq> CHR ''_'' \<and> c \<noteq> CHR 0x5C)"

text \<open>
  What the handler's filters, once they take effect, say of a merchant. Of the name: it
  matches the pattern, and when the name asked for is plain, a part of the trading name
  equals it character by character under the collation.
\<close>

definition passes :: "platform \<Rightarrow> db \<Rightarrow> merchants_query \<Rightarrow> MerchantEntity \<Rightarrow> bool" where
  "passes p d q m =
     ((\<forall>al c. given (q_payintoId q) = Some al \<and> findOne_counter_by_alias d al = Some c \<longrightarrow>
         counter_merchant c = Some (merchant_id m)) \<and>
      (js_greater (q_merchantId q) 0 \<and>
       (\<forall>al. given (q_payintoId q) = Some al \<longrightarrow> findOne_counter_by_alias d al = None) \<longrightarrow>
         id_is (q_merchantId q) (merchant_id m)) \<and>
      (\<forall>st. given (q_registrationStatus q) = Some st \<longrightarrow>
         status_value (registration_status m) = st) \<and>
      (\<forall>usr. js_greater (q_addedBy q) 0 \<and> findOne_user_by_number d (q_addedBy q) = Some usr \<longrightarrow>
         created_by m = Some (user_id usr)) \<and>
      (\<forall>usr. js_greater (q_approvedBy q) 0 \<and>
         findOne_user_by_number d (q_approvedBy q) = Some usr \<longrightarrow>
         checked_by m = Some (user_id usr)) \<and>
      (\<forall>nm. given (q_dbaName q) = Some nm \<longrightarrow>
         sql_like (collation p) (CHR ''%'' # nm @ ''%'') (dba_trading_name m) \<and>
         (plain nm \<longrightarrow>
            (\<exists>part. sublist part (dba_trading_name m) \<and> list_all2 (collation p) nm part))) \<and>
      (\<forall>str t. given (q_addedTime q) = Some str \<and> Date_parse p str = Some t \<longrightarrow>
         setHours p t 0 0 0 0 \<le> created_at m \<and> created_at m \<le> setHours p t 23 59 59 999) \<and>
      (\<forall>str t. given (q_updatedTime q) = Some str \<and> Date_parse p str = Some t \<longrightarrow>
         setHours p t 0 0 0 0 \<le> updated_at m \<and> updated_at m \<le> setHours p t 23 59 59 999))"

text \<open>The older GET /merchants of the routes file: every merchant, no relation loaded.\<close>

definition get_merchants :: "io \<Rightarrow> db \<Rightarrow> response" where
  "get_merchants e d =
     (case query_result e of
        Some err \<Rightarrow> Response 500 (MessageThrown err)
      | None \<Rightarrow>
         Response 200 (MessageList ''OK''
           (map (\<lambda>m. \<lparr>mo_row = m, mo_created_by = None, mo_checked_by = None,
                      mo_checkout_counters = [], mo_business_licenses = []\<rparr>) (merchants d))))"

subsection \<open>GET /merchants/:id\<close>

text \<open>The object the handler builds from a loaded user: four properties, no password.\<close>

definition public_user :: "PortalUserEntity \<Rightarrow> user_obj" where
  "public_user u = \<lparr>uo_id = user_id u, uo_name = Some (user_name u),
     uo_email = Some (user_email u), uo_phone_number = Some (user_phone_number u),
     uo_password = None\<rparr>"

definition get_merchant :: "io \<Rightarrow> js_number \<Rightarrow> db \<Rightarrow> response" where
  "get_merchant e n d =
     (if isNaN n then Response 422 (Message ''Invalid ID'')
      else (case query_result e of
         Some err \<Rightarrow> Response 500 (MessageThrown err)
       | None \<Rightarrow>
          (case findOne_merchant d n of
             None \<Rightarrow> Response 404 (Message ''Merchant not found'')
           | Some merchant \<Rightarrow>
              let checkedBy = map_option public_user (relation_user d (checked_by merchant))
              in (case relation_user d (created_by merchant) of
                    None \<Rightarrow> Response 500 (MessageThrown TypeError)
                  | Some creator \<Rightarrow>
                     Response 200 (MessageData ''OK''
                       \<lparr>mo_row = merchant, mo_created_by = Some (public_user creator),
                        mo_checked_by = checkedBy,
                        mo_checkout_counters = counters_of d (merchant_id merchant),
                        mo_business_licenses =
                          map loaded_license (licenses_of d (merchant_id merchant))\<rparr>)))))"

section \<open>POST /users/login\<close>





section \<open>What a response shows of a password\<close>

definition user_passwords :: "user_obj option \<Rightarrow> string list" where
  "user_passwords u = (case u of None \<Rightarrow> [] | Some x \<Rightarrow> option_list (uo_password x))"

definition license_passwords :: "license_obj \<Rightarrow> string list" where
  "license_passwords l =
     (case lo_merchant l of
        None \<Rightarrow> []
      | Some (creator, approver) \<Rightarrow> user_passwords creator @ user_passwords approver)"

definition merchant_passwords :: "merchant_obj \<Rightarrow> string list" where
  "merchant_passwords m =
     user_passwords (mo_created_by m) @ user_passwords (mo_checked_by m) @
     concat (map license_passwords (mo_business_licenses m))"

fun body_passwords :: "body \<Rightarrow> string list" where
  "body_passwords (MessageData _ m) = merchant_passwords m"
| "body_passwords (MessageList _ ms) = concat (map merchant_passwords ms)"
| "body_passwords _ = []"

fun response_passwords :: "response \<Rightarrow> string list" where
  "response_passwords (Response _ b) = body_passwords b"
| "response_passwords (Unhandled _) = []"

section \<open>Example data\<close>

text \<open>
  Two portal users, the maker and the checker of the two test tokens, and a database of
  three merchants that the maker drafted.
\<close>

definition env0 :: env where
  "env0 = \<lparr>TEST1_DUMMY_AUTH_TOKEN = ''token1'', TEST1_EMAIL = ''maker@example.com'',
            TEST2_DUMMY_AUTH_TOKEN = ''token2'', TEST2_EMAIL = ''checker@example.com''\<rparr>"

definition io_ok :: io where
  "io_ok = \<lparr>now = 1000, query_result = None, save_counter_result = None,
     save_merchant_result = None, save_license_result = None, resave_merchant_result = None,
     update_result = None, delete_result = None, upload_result = Inr None\<rparr>"

definition maker :: PortalUserEntity where
  "maker = \<lparr>user_id = 1, user_name = ''Maker'', user_email = ''maker@example.com'',
     user_phone_number = ''111'', user_password = ''hash1''\<rparr>"

definition checker :: PortalUserEntity where
  "checker = \<lparr>user_id = 2, user_name = ''Checker'', user_email = ''checker@example.com'',
     user_phone_number = ''222'', user_password = ''hash2''\<rparr>"

definition merchant_row ::
  "nat \<Rightarrow> string \<Rightarrow> MerchantRegistrationStatus \<Rightarrow> nat option \<Rightarrow> int \<Rightarrow> MerchantEntity" where
  "merchant_row i nm st cb t = \<lparr>merchant_id = i, dba_trading_name = nm, registered_name = nm,
     employees_num = ''1 - 5'', monthly_turnover = ''0.5'', currency_code = ''PHP'',
     category_code = ''10410'', merchant_type = ''Individual'', registration_status = st,
     registration_status_reason = [], allow_block_status = PENDING, created_by = cb,
     checked_by = None, created_at = t, updated_at = t\<rparr>"

definition alpha :: MerchantEntity where
  "alpha = merchant_row 1 ''Alpha'' REVIEW (Some 1) 100"

definition beta :: MerchantEntity where
  "beta = merchant_row 2 ''Beta'' APPROVED (Some 1) 200"

definition gamma :: MerchantEntity where
  "gamma = merchant_row 3 ''Gamma'' DRAFT (Some 1) 300"

definition db0 :: db where
  "db0 = \<lparr>merchants = [alpha, beta, gamma],
           portal_users = [maker, checker],
           checkout_counters =
             [\<lparr>counter_id = Some 1, alias_value = Some ''alpha'', counter_merchant = Some 1\<rparr>],
           business_licenses = []\<rparr>"

lemmas example_defs = env0_def io_ok_def maker_def checker_def merchant_row_def alpha_def
  beta_def gamma_def db0_def

lemmas query_defs = findOne_merchant_def findOne_user_def relation_user_def save_merchant_def
  stored_status_def stored_checked_by_def nativeEnum_parse_def all_statuses_def
  token_of_def trim_def is_space_def findOne_user_by_email_def dummy_auth_def entity_obj_def
  Let_def

text \<open>
  A schema that accepts every body, the body of a draft, a database in which two
  checkout counters carry the same alias (the older draft update writes an alias without
  looking it up), and stand-ins for the library calls of the login.
\<close>

definition any_body :: "merchant_submit_body \<Rightarrow> bool" where
  "any_body b = True"

definition body0 :: merchant_submit_body where
  "body0 = \<lparr>b_dba_trading_name = ''Gamma Two'', b_registered_name = ''Gamma'',
     b_employees_num = ''1 - 5'', b_monthly_turnover = ''0.5'', b_currency_code = ''PHP'',
     b_category_code = ''10410'', b_merchant_type = ''Individual'',
     b_payinto_alias = Some ''shared'', b_registration_status = Some ''Draft'',
     b_registration_status_reason = ''Drafted by Maker'', b_license_number = ''123456789'',
     b_business_licenses = Some []\<rparr>"

definition db_shared :: db where
  "db_shared = db0\<lparr>checkout_counters :=
     [\<lparr>counter_id = Some 1, alias_value = Some ''alpha'', counter_merchant = Some 1\<rparr>,
      \<lparr>counter_id = Some 2, alias_value = Some ''shared'', counter_merchant = Some 3\<rparr>,
      \<lparr>counter_id = Some 3, alias_value = Some ''shared'', counter_merchant = Some 2\<rparr>]\<rparr>"

definition is_email0 :: "string \<Rightarrow> bool" where
  "is_email0 s = (CHR ''@'' \<in> set s)"

definition compare0 :: "string \<Rightarrow> string \<Rightarrow> bool" where
  "compare0 password hash = (password = ''password-of-'' @ hash)"

definition sign0 :: "nat \<Rightarrow> string \<Rightarrow> thrown + string" where
  "sign0 i email = Inr (''token-of-'' @ email)"

definition date0 :: "string \<Rightarrow> int option" where
  "date0 s = (if s = ''1970-01-01'' then Some 0 else None)"

text \<open>
  A platform: the server in UTC, the collation \<open>NOCASE\<close>, and one string that is a date.
\<close>

definition platform0 :: platform where
  "platform0 = \<lparr>Date_parse = date0, setHours = fixed_zone_setHours 0, collation = nocase\<rparr>"

text \<open>A request in which the save of the merchant fails.\<close>

definition io_fail :: io where
  "io_fail = io_ok\<lparr>save_merchant_result := Some (QueryFailedError ''Data too long'')\<rparr>"

definition query0 :: merchants_query where
  "query0 = \<lparr>q_addedBy = NaN, q_approvedBy = NaN, q_addedTime = None, q_updatedTime = None,
     q_dbaName = None, q_merchantId = NaN, q_payintoId = None, q_registrationStatus = None\<rparr>"

lemmas example2_defs = any_body_def body0_def db_shared_def is_email0_def compare0_def
  sign0_def date0_def platform0_def query0_def

section \<open>Properties\<close>

subsection \<open>Keys and stored statuses\<close>

lemma id_is_unique: "id_is n i \<Longrightarrow> id_is n j \<longleftrightarrow> j = i"
  by (cases n) auto

lemma id_is_Num: "id_is n i \<longleftrightarrow> n = Num (of_nat i)"
  by (cases n) auto

lemma find_cong_pred: "(\<And>x. x \<in> set xs \<Longrightarrow> P x = Q x) \<Longrightarrow> find P xs = find Q xs"
  by (induction xs) auto

lemma findOne_merchant_by_id:
  assumes "findOne_merchant d n = Some m"
  shows "find (\<lambda>r. merchant_id r = merchant_id m) (merchants d) = Some m"
proof -
  from assms have h: "id_is n (merchant_id m)"
    by (auto simp: findOne_merchant_def find_Some_iff)
  have "find (\<lambda>r. id_is n (merchant_id r)) (merchants d) =
      find (\<lambda>r. merchant_id r = merchant_id m) (merchants d)"
    by (rule find_cong_pred) (rule id_is_unique [OF h])
  with assms show ?thesis by (simp add: findOne_merchant_def)
qed

lemma find_map_update:
  "merchant_id m' = k \<Longrightarrow>
   find (\<lambda>r. merchant_id r = i) (map (\<lambda>r. if merchant_id r = k then m' else r) ms) =
   map_option (\<lambda>r. if i = k then m' else r) (find (\<lambda>r. merchant_id r = i) ms)"
  by (induction ms) auto

lemma stored_status_save:
  "stored_status (save_merchant d m') i =
     (if i = merchant_id m' then map_option (\<lambda>_. registration_status m') (stored_status d i)
      else stored_status d i)"
  by (simp add: stored_status_def save_merchant_def find_map_update option.map_comp comp_def
      option.map_ident)

lemma stored_status_findOne:
  "findOne_merchant d n = Some m \<Longrightarrow> stored_status d (merchant_id m) = Some (registration_status m)"
  by (simp add: stored_status_def findOne_merchant_by_id)

lemma approve_status_change:
  assumes "stored_status (snd (putWaitingAliasGeneration e pu n d)) i \<noteq> stored_status d i"
  shows "stored_status d i = Some REVIEW \<and>
         stored_status (snd (putWaitingAliasGeneration e pu n d)) i = Some WAITINGALIASGENERATION \<and>
         status_of (fst (putWaitingAliasGeneration e pu n d)) = Some 200"
  using assms
  by (auto simp: putWaitingAliasGeneration_def Let_def stored_status_save
      dest: stored_status_findOne split: option.splits if_splits thrown.splits)

lemma approve_error_unchanged:
  "status_of (fst (putWaitingAliasGeneration e pu n d)) \<noteq> Some 200 \<Longrightarrow>
   snd (putWaitingAliasGeneration e pu n d) = d"
  by (auto simp: putWaitingAliasGeneration_def Let_def split: option.splits if_splits thrown.splits)

lemma regstatus_status_change:
  assumes "stored_status (snd (put_registration_status v e a n b d)) i \<noteq> stored_status d i"
  shows "stored_status (snd (put_registration_status v e a n b d)) i = nativeEnum_parse (sb_registration_status b) \<and>
         status_of (fst (put_registration_status v e a n b d)) = Some 200"
  using assms
  by (auto simp: put_registration_status_def Let_def stored_status_save
      dest: stored_status_findOne split: option.splits if_splits thrown.splits)

lemma regstatus_error_unchanged:
  "status_of (fst (put_registration_status v e a n b d)) \<noteq> Some 200 \<Longrightarrow>
   snd (put_registration_status v e a n b d) = d"
  by (auto simp: put_registration_status_def Let_def split: option.splits if_splits thrown.splits)

subsection \<open>The count of the bulk approval\<close>

lemma bulk_count_full:
  assumes pk: "distinct (map merchant_id (merchants d))"
    and cnt: "bulk_count d uid ids = length ids"
  shows "distinct ids"
    and "\<forall>m \<in> set (merchants d). (\<exists>n \<in> set ids. id_is n (merchant_id m)) \<longrightarrow> bulk_candidate uid ids m"
    and "\<forall>n \<in> set ids. \<exists>m \<in> set (merchants d). id_is n (merchant_id m)"
proof -
  let ?M = "merchants d"
  let ?P = "\<lambda>m. \<exists>n \<in> set ids. id_is n (merchant_id m)"
  let ?f = "\<lambda>m. Num (of_nat (merchant_id m))"
  have dM: "distinct ?M" using pk by (simp add: distinct_map)
  have inj: "inj_on ?f (set ?M)"
    using pk by (auto simp: inj_on_def distinct_map)
  have sub: "?f ` set (filter ?P ?M) \<subseteq> set ids"
    by (auto simp: id_is_Num)
  have cf: "filter (bulk_candidate uid ids) ?M = filter (bulk_candidate uid ids) (filter ?P ?M)"
    unfolding filter_filter by (rule filter_cong [OF refl]) (auto simp: bulk_candidate_def)
  have "length (filter (bulk_candidate uid ids) ?M) \<le> length (filter ?P ?M)"
    by (subst cf) (rule length_filter_le)
  moreover have "length (filter ?P ?M) = card (?f ` set (filter ?P ?M))"
  proof -
    have "inj_on ?f (set (filter ?P ?M))" using inj by (auto simp: inj_on_def)
    then have "card (?f ` set (filter ?P ?M)) = card (set (filter ?P ?M))" by (rule card_image)
    also have "\<dots> = length (filter ?P ?M)"
      by (rule distinct_card) (rule distinct_filter [OF dM])
    finally show ?thesis by simp
  qed
  moreover have "card (?f ` set (filter ?P ?M)) \<le> card (set ids)"
    using sub by (simp add: card_mono)
  moreover have "card (set ids) \<le> length ids" by (rule card_length)
  ultimately have e1: "length (filter (bulk_candidate uid ids) ?M) = length (filter ?P ?M)"
    and e2: "card (?f ` set (filter ?P ?M)) = card (set ids)"
    and e3: "card (set ids) = length ids"
    using cnt by (auto simp: bulk_count_def)
  from e3 show "distinct ids" by (rule card_distinct)
  show "\<forall>m \<in> set ?M. ?P m \<longrightarrow> bulk_candidate uid ids m"
  proof (intro ballI impI, rule ccontr)
    fix m assume "m \<in> set ?M" "?P m" "\<not> bulk_candidate uid ids m"
    then have "m \<in> set (filter ?P ?M)" by simp
    then have "length (filter (bulk_candidate uid ids) (filter ?P ?M)) < length (filter ?P ?M)"
      using \<open>\<not> bulk_candidate uid ids m\<close>
      by (rule length_filter_less [where P = "bulk_candidate uid ids"])
    with e1 cf show False by simp
  qed
  have "?f ` set (filter ?P ?M) = set ids"
    using sub e2 by (simp add: card_subset_eq)
  then show "\<forall>n \<in> set ids. \<exists>m \<in> set ?M. id_is n (merchant_id m)"
    by (auto simp: id_is_Num image_iff set_eq_iff) 
qed

lemma bulk_count_exact:
  assumes pk: "distinct (map merchant_id (merchants d))"
    and di: "distinct ids"
    and ok: "\<forall>n \<in> set ids. \<exists>m \<in> set (merchants d). id_is n (merchant_id m) \<and> bulk_candidate uid ids m"
  shows "bulk_count d uid ids = length ids"
proof -
  let ?M = "merchants d"
  let ?C = "filter (bulk_candidate uid ids) ?M"
  let ?f = "\<lambda>m. Num (of_nat (merchant_id m))"
  have dM: "distinct ?M" using pk by (simp add: distinct_map)
  have "inj_on ?f (set ?C)" using pk by (auto simp: inj_on_def distinct_map)
  then have "card (?f ` set ?C) = card (set ?C)" by (rule card_image)
  also have "\<dots> = length ?C" by (rule distinct_card) (rule distinct_filter [OF dM])
  finally have c: "length ?C = card (?f ` set ?C)" by simp
  have "?f ` set ?C = set ids"
  proof
    show "?f ` set ?C \<subseteq> set ids" by (auto simp: bulk_candidate_def id_is_Num)
    show "set ids \<subseteq> ?f ` set ?C"
    proof
      fix n assume "n \<in> set ids"
      with ok obtain m where "m \<in> set ?M" "id_is n (merchant_id m)" "bulk_candidate uid ids m"
        by blast
      then show "n \<in> ?f ` set ?C" by (auto simp: id_is_Num image_iff)
    qed
  qed
  with c di show ?thesis by (simp add: bulk_count_def distinct_card)
qed

lemma bulk_count_iff:
  assumes pk: "distinct (map merchant_id (merchants d))"
    and valid: "\<not> (\<exists>n \<in> set ids. isNaN n \<or> js_less n 1)"
  shows "bulk_count d uid ids = length ids \<longleftrightarrow> distinct ids \<and> bulk_ok d uid ids"
proof
  assume cnt: "bulk_count d uid ids = length ids"
  note full = bulk_count_full [OF pk cnt]
  have "bulk_ok d uid ids"
    unfolding bulk_ok_def
  proof (intro ballI conjI)
    fix n assume n: "n \<in> set ids"
    from n valid show "\<not> isNaN n" "\<not> js_less n 1" by auto
    from n full(3) obtain m where m: "m \<in> set (merchants d)" "id_is n (merchant_id m)" by blast
    with n full(2) have "bulk_candidate uid ids m" by blast
    with m show "\<exists>m \<in> set (merchants d). id_is n (merchant_id m) \<and> registration_status m = REVIEW \<and>
           created_by m \<noteq> None \<and> created_by m \<noteq> Some uid"
      by (auto simp: bulk_candidate_def split: option.splits)
  qed
  with full(1) show "distinct ids \<and> bulk_ok d uid ids" by simp
next
  assume a: "distinct ids \<and> bulk_ok d uid ids"
  then have "\<forall>n \<in> set ids. \<exists>m \<in> set (merchants d). id_is n (merchant_id m) \<and> bulk_candidate uid ids m"
    by (fastforce simp: bulk_ok_def bulk_candidate_def split: option.splits)
  with pk a show "bulk_count d uid ids = length ids" by (simp add: bulk_count_exact)
qed

lemma bulk_ok_valid: "bulk_ok d uid ids \<Longrightarrow> \<not> (\<exists>n \<in> set ids. isNaN n \<or> js_less n 1)"
  by (auto simp: bulk_ok_def)

lemma bulk_update_rows:
  "m \<in> set (merchants (bulk_update d uid ids)) \<Longrightarrow> id_is n (merchant_id m) \<Longrightarrow> n \<in> set ids \<Longrightarrow>
   registration_status m = WAITINGALIASGENERATION \<and> checked_by m = Some uid"
  by (auto simp: bulk_update_def split: if_splits)

lemma bulk_update_keys:
  "map merchant_id (merchants (bulk_update d uid ids)) = map merchant_id (merchants d)"
  by (simp add: bulk_update_def comp_def)

lemma find_map_keep:
  "(\<And>r. merchant_id (g r) = merchant_id r) \<Longrightarrow>
   find (\<lambda>r. merchant_id r = i) (map g ms) = map_option g (find (\<lambda>r. merchant_id r = i) ms)"
  by (induction ms) auto

lemma bulk_status_change:
  assumes pk: "distinct (map merchant_id (merchants d))"
    and ch: "stored_status (snd (putBulkWaitingAliasGeneration e pu ids d)) i \<noteq> stored_status d i"
  shows "stored_status d i = Some REVIEW \<and>
         stored_status (snd (putBulkWaitingAliasGeneration e pu ids d)) i = Some WAITINGALIASGENERATION"
proof -
  from ch obtain u where u: "pu = Some u" "bulk_count d (user_id u) ids = length ids"
      and d': "snd (putBulkWaitingAliasGeneration e pu ids d) = bulk_update d (user_id u) ids"
    by (auto simp: putBulkWaitingAliasGeneration_def split: option.splits if_splits)
  let ?g = "\<lambda>m. if \<exists>n \<in> set ids. id_is n (merchant_id m)
        then m\<lparr>registration_status := WAITINGALIASGENERATION,
               registration_status_reason := ''Bulk Updated to Waiting Alias Generation'',
               checked_by := Some (user_id u)\<rparr>
        else m"
  have st: "stored_status (bulk_update d (user_id u) ids) i =
      map_option (\<lambda>r. registration_status (?g r)) (find (\<lambda>m. merchant_id m = i) (merchants d))"
    by (simp add: stored_status_def bulk_update_def find_map_keep option.map_comp comp_def)
  from ch d' st obtain r where r: "find (\<lambda>m. merchant_id m = i) (merchants d) = Some r"
      and named: "\<exists>n \<in> set ids. id_is n (merchant_id r)"
    by (cases "find (\<lambda>m. merchant_id m = i) (merchants d)")
       (auto simp: stored_status_def split: if_splits)
  from r have "r \<in> set (merchants d)" by (auto simp: find_Some_iff)
  with named bulk_count_full(2) [OF pk u(2)] have "bulk_candidate (user_id u) ids r" by blast
  then have "registration_status r = REVIEW" by (simp add: bulk_candidate_def)
  with r named d' st show ?thesis by (simp add: stored_status_def)
qed

subsection \<open>The claims on status changes\<close>

text \<open>
  C1, as the code has it. A write of \<open>registration_status\<close> by PUT /merchants/:id/approve
  or by PUT /merchants/bulk-approve is the step from Review to WaitingAliasGeneration of
  the workflow and nothing else, and a merchant that is not in Review makes the approval
  answer with an error and leave the database as it was. PUT
  /merchants/:id/registration-status stores the status named in the body of the request,
  which the handler has checked to be one of the five values of the enum, whatever the
  current status is: the handler has no check of the workflow order.
\<close>

theorem status_writes:
  "(stored_status (snd (putWaitingAliasGeneration e pu n d)) i \<noteq> stored_status d i \<longrightarrow>
      stored_status d i = Some REVIEW \<and>
      stored_status (snd (putWaitingAliasGeneration e pu n d)) i = Some WAITINGALIASGENERATION \<and>
      workflow_next REVIEW WAITINGALIASGENERATION) \<and>
   (findOne_merchant d n = Some m \<and> registration_status m \<noteq> REVIEW \<longrightarrow>
      is_error (fst (putWaitingAliasGeneration e pu n d)) \<and>
      snd (putWaitingAliasGeneration e pu n d) = d) \<and>
   (distinct (map merchant_id (merchants d)) \<and>
    stored_status (snd (putBulkWaitingAliasGeneration e pu ids d)) i \<noteq> stored_status d i \<longrightarrow>
      stored_status d i = Some REVIEW \<and>
      stored_status (snd (putBulkWaitingAliasGeneration e pu ids d)) i = Some WAITINGALIASGENERATION) \<and>
   (stored_status (snd (put_registration_status v e a n b d)) i \<noteq> stored_status d i \<longrightarrow>
      (\<exists>s \<in> set all_statuses.
         sb_registration_status b = Some (status_value s) \<and>
         stored_status (snd (put_registration_status v e a n b d)) i = Some s))"
proof (intro conjI impI)
  assume "stored_status (snd (putWaitingAliasGeneration e pu n d)) i \<noteq> stored_status d i"
  from approve_status_change [OF this]
  show "stored_status d i = Some REVIEW"
    and "stored_status (snd (putWaitingAliasGeneration e pu n d)) i = Some WAITINGALIASGENERATION"
    by simp_all
next
  show "workflow_next REVIEW WAITINGALIASGENERATION" by simp
next
  assume "findOne_merchant d n = Some m \<and> registration_status m \<noteq> REVIEW"
  then show "is_error (fst (putWaitingAliasGeneration e pu n d))"
    and "snd (putWaitingAliasGeneration e pu n d) = d"
    by (auto simp: putWaitingAliasGeneration_def split: option.splits)
next
  assume "distinct (map merchant_id (merchants d)) \<and>
    stored_status (snd (putBulkWaitingAliasGeneration e pu ids d)) i \<noteq> stored_status d i"
  then have "stored_status d i = Some REVIEW \<and>
      stored_status (snd (putBulkWaitingAliasGeneration e pu ids d)) i = Some WAITINGALIASGENERATION"
    by (intro bulk_status_change) simp_all
  then show "stored_status d i = Some REVIEW"
    and "stored_status (snd (putBulkWaitingAliasGeneration e pu ids d)) i = Some WAITINGALIASGENERATION"
    by simp_all
next
  assume ch: "stored_status (snd (put_registration_status v e a n b d)) i \<noteq> stored_status d i"
  from regstatus_status_change [OF ch]
  have p: "stored_status (snd (put_registration_status v e a n b d)) i =
      nativeEnum_parse (sb_registration_status b)" by simp
  from ch obtain s where s: "nativeEnum_parse (sb_registration_status b) = Some s"
    by (cases "nativeEnum_parse (sb_registration_status b)")
       (auto simp: put_registration_status_def split: option.splits if_splits)
  then obtain x where "sb_registration_status b = Some x"
      "find (\<lambda>e. status_value e = x) all_statuses = Some s"
    by (auto simp: nativeEnum_parse_def split: option.splits)
  then have "s \<in> set all_statuses" "sb_registration_status b = Some (status_value s)"
    by (auto simp: find_Some_iff)
  with p s show "\<exists>s \<in> set all_statuses.
         sb_registration_status b = Some (status_value s) \<and>
         stored_status (snd (put_registration_status v e a n b d)) i = Some s"
    by auto
qed

theorem status_writes_witness:
  "stored_status (snd (putWaitingAliasGeneration io_ok (Some checker) (Num 1) db0)) 1 \<noteq> stored_status db0 1 \<and>
   stored_status db0 1 = Some REVIEW \<and>
   stored_status (snd (putWaitingAliasGeneration io_ok (Some checker) (Num 1) db0)) 1 =
     Some WAITINGALIASGENERATION \<and>
   findOne_merchant db0 (Num 3) = Some gamma \<and> registration_status gamma \<noteq> REVIEW \<and>
   is_error (fst (putWaitingAliasGeneration io_ok (Some checker) (Num 3) db0)) \<and>
   snd (putWaitingAliasGeneration io_ok (Some checker) (Num 3) db0) = db0 \<and>
   distinct (map merchant_id (merchants db0)) \<and>
   stored_status (snd (putBulkWaitingAliasGeneration io_ok (Some checker) [Num 1] db0)) 1 \<noteq> stored_status db0 1 \<and>
   stored_status (snd (putBulkWaitingAliasGeneration io_ok (Some checker) [Num 1] db0)) 1 =
     Some WAITINGALIASGENERATION \<and>
   stored_status (snd (put_registration_status env0 io_ok (Some ''Bearer token2'') (Num 1)
      \<lparr>sb_registration_status = Some ''Rejected'', sb_registration_status_reason = ''no''\<rparr> db0)) 1 \<noteq>
     stored_status db0 1 \<and>
   (\<exists>s \<in> set all_statuses. Some ''Rejected'' = Some (status_value s) \<and>
      stored_status (snd (put_registration_status env0 io_ok (Some ''Bearer token2'') (Num 1)
        \<lparr>sb_registration_status = Some ''Rejected'', sb_registration_status_reason = ''no''\<rparr> db0)) 1 = Some s)"
proof -
  let ?b = "\<lparr>sb_registration_status = Some ''Rejected'', sb_registration_status_reason = ''no''\<rparr>"
  have h1: "stored_status (snd (putWaitingAliasGeneration io_ok (Some checker) (Num 1) db0)) 1 \<noteq>
      stored_status db0 1"
    by (simp add: putWaitingAliasGeneration_def query_defs example_defs)
  have h2: "findOne_merchant db0 (Num 3) = Some gamma \<and> registration_status gamma \<noteq> REVIEW"
    by (simp add: query_defs example_defs)
  have h3: "distinct (map merchant_id (merchants db0))"
    by (simp add: example_defs)
  have h4: "stored_status (snd (putBulkWaitingAliasGeneration io_ok (Some checker) [Num 1] db0)) 1 \<noteq>
      stored_status db0 1"
    by (simp add: putBulkWaitingAliasGeneration_def bulk_count_def bulk_candidate_def
        bulk_update_def query_defs example_defs)
  have h5: "stored_status (snd (put_registration_status env0 io_ok (Some ''Bearer token2'') (Num 1) ?b db0)) 1 \<noteq>
      stored_status db0 1"
    by (simp add: put_registration_status_def query_defs example_defs)
  note t1 = status_writes [of io_ok "Some checker" "Num 1" db0 1 alpha "[Num 1]" env0
      "Some ''Bearer token2''" ?b]
  note t3 = status_writes [of io_ok "Some checker" "Num 3" db0 1 gamma "[Num 1]" env0
      "Some ''Bearer token2''" ?b]
  from t1 h1 have c1: "stored_status db0 1 = Some REVIEW \<and>
      stored_status (snd (putWaitingAliasGeneration io_ok (Some checker) (Num 1) db0)) 1 =
        Some WAITINGALIASGENERATION" by blast
  from t3 h2 have c2: "is_error (fst (putWaitingAliasGeneration io_ok (Some checker) (Num 3) db0)) \<and>
      snd (putWaitingAliasGeneration io_ok (Some checker) (Num 3) db0) = db0" by blast
  from t1 h3 h4 have c3: "stored_status (snd (putBulkWaitingAliasGeneration io_ok (Some checker) [Num 1] db0)) 1 =
      Some WAITINGALIASGENERATION" by blast
  from t1 h5 have c4: "\<exists>s \<in> set all_statuses. sb_registration_status ?b = Some (status_value s) \<and>
      stored_status (snd (put_registration_status env0 io_ok (Some ''Bearer token2'') (Num 1) ?b db0)) 1 = Some s"
    by blast
  then have c4': "\<exists>s \<in> set all_statuses. Some ''Rejected'' = Some (status_value s) \<and>
      stored_status (snd (put_registration_status env0 io_ok (Some ''Bearer token2'') (Num 1) ?b db0)) 1 = Some s"
    by simp
  from h1 h2 h3 h4 h5 c1 c2 c3 c4' show ?thesis by blast
qed

text \<open>
  C1 as it is written fails: the checker takes the approved merchant 2 back to Draft, which
  is no step of the workflow.
\<close>

theorem status_writes_counterexample:
  "stored_status db0 2 = Some APPROVED \<and>
   fst (put_registration_status env0 io_ok (Some ''Bearer token2'') (Num 2)
      \<lparr>sb_registration_status = Some ''Draft'', sb_registration_status_reason = ''back''\<rparr> db0) =
     Response 200 (MessageData ''Status Updated''
       \<lparr>mo_row = beta\<lparr>registration_status := DRAFT, registration_status_reason := ''back'',
          checked_by := Some 2\<rparr>, mo_created_by = None, mo_checked_by = None,
        mo_checkout_counters = [], mo_business_licenses = []\<rparr>) \<and>
   stored_status (snd (put_registration_status env0 io_ok (Some ''Bearer token2'') (Num 2)
      \<lparr>sb_registration_status = Some ''Draft'', sb_registration_status_reason = ''back''\<rparr> db0)) 2 =
     Some DRAFT \<and>
   \<not> workflow_next APPROVED DRAFT"
  by (simp add: put_registration_status_def query_defs example_defs)

text \<open>
  C2. A request to change a status whose authenticated user is the one recorded in
  \<open>created_by\<close> of the target merchant is answered with an error, and the database (so
  the merchant's \<open>registration_status\<close> and \<open>checked_by\<close>) is left as it was: by PUT
  /merchants/:id/approve, by PUT /merchants/:id/registration-status and by PUT
  /merchants/bulk-approve (the merchants' keys being distinct, as a primary key is).
\<close>

theorem creator_cannot_change_status:
  "(findOne_merchant d n = Some m \<and> created_by m = Some (user_id u) \<longrightarrow>
      is_error (fst (putWaitingAliasGeneration e (Some u) n d)) \<and>
      snd (putWaitingAliasGeneration e (Some u) n d) = d) \<and>
   (dummy_auth v d a = Some (Some u) \<and> findOne_merchant d n = Some m \<and>
    created_by m = Some (user_id u) \<longrightarrow>
      is_error (fst (put_registration_status v e a n b d)) \<and>
      snd (put_registration_status v e a n b d) = d) \<and>
   (distinct (map merchant_id (merchants d)) \<and> k \<in> set ids \<and> m' \<in> set (merchants d) \<and>
    id_is k (merchant_id m') \<and> created_by m' = Some (user_id u) \<longrightarrow>
      is_error (fst (putBulkWaitingAliasGeneration e (Some u) ids d)) \<and>
      snd (putBulkWaitingAliasGeneration e (Some u) ids d) = d)"
proof (intro conjI impI)
  assume "findOne_merchant d n = Some m \<and> created_by m = Some (user_id u)"
  then show "is_error (fst (putWaitingAliasGeneration e (Some u) n d))"
    and "snd (putWaitingAliasGeneration e (Some u) n d) = d"
    by (auto simp: putWaitingAliasGeneration_def relation_user_def findOne_user_def find_Some_iff
        split: option.splits)
next
  assume "dummy_auth v d a = Some (Some u) \<and> findOne_merchant d n = Some m \<and>
    created_by m = Some (user_id u)"
  then show "is_error (fst (put_registration_status v e a n b d))"
    and "snd (put_registration_status v e a n b d) = d"
    by (auto simp: put_registration_status_def relation_user_def findOne_user_def find_Some_iff
        split: option.splits)
next
  assume h: "distinct (map merchant_id (merchants d)) \<and> k \<in> set ids \<and> m' \<in> set (merchants d) \<and>
    id_is k (merchant_id m') \<and> created_by m' = Some (user_id u)"
  have "bulk_count d (user_id u) ids \<noteq> length ids"
  proof
    assume "bulk_count d (user_id u) ids = length ids"
    with h bulk_count_full(2) [of d "user_id u" ids] have "bulk_candidate (user_id u) ids m'"
      by blast
    with h show False by (simp add: bulk_candidate_def)
  qed
  then show "is_error (fst (putBulkWaitingAliasGeneration e (Some u) ids d))"
    and "snd (putBulkWaitingAliasGeneration e (Some u) ids d) = d"
    by (auto simp: putBulkWaitingAliasGeneration_def)
qed

theorem creator_cannot_change_status_witness:
  "findOne_merchant db0 (Num 1) = Some alpha \<and> created_by alpha = Some (user_id maker) \<and>
   is_error (fst (putWaitingAliasGeneration io_ok (Some maker) (Num 1) db0)) \<and>
   snd (putWaitingAliasGeneration io_ok (Some maker) (Num 1) db0) = db0 \<and>
   dummy_auth env0 db0 (Some ''Bearer token1'') = Some (Some maker) \<and>
   is_error (fst (put_registration_status env0 io_ok (Some ''Bearer token1'') (Num 1)
      \<lparr>sb_registration_status = Some ''Approved'', sb_registration_status_reason = ''ok''\<rparr> db0)) \<and>
   snd (put_registration_status env0 io_ok (Some ''Bearer token1'') (Num 1)
      \<lparr>sb_registration_status = Some ''Approved'', sb_registration_status_reason = ''ok''\<rparr> db0) = db0 \<and>
   distinct (map merchant_id (merchants db0)) \<and> Num 1 \<in> set [Num 1, Num 2] \<and>
   alpha \<in> set (merchants db0) \<and> id_is (Num 1) (merchant_id alpha) \<and>
   is_error (fst (putBulkWaitingAliasGeneration io_ok (Some maker) [Num 1, Num 2] db0)) \<and>
   snd (putBulkWaitingAliasGeneration io_ok (Some maker) [Num 1, Num 2] db0) = db0"
proof -
  let ?b = "\<lparr>sb_registration_status = Some ''Approved'', sb_registration_status_reason = ''ok''\<rparr>"
  have h1: "findOne_merchant db0 (Num 1) = Some alpha \<and> created_by alpha = Some (user_id maker)"
    by (simp add: query_defs example_defs)
  have h2: "dummy_auth env0 db0 (Some ''Bearer token1'') = Some (Some maker)"
    by (simp add: query_defs example_defs)
  have h3: "distinct (map merchant_id (merchants db0)) \<and> Num 1 \<in> set [Num 1, Num 2] \<and>
      alpha \<in> set (merchants db0) \<and> id_is (Num 1) (merchant_id alpha)"
    by (simp add: example_defs)
  note t = creator_cannot_change_status [of db0 "Num 1" alpha maker io_ok env0
      "Some ''Bearer token1''" ?b "Num 1" "[Num 1, Num 2]" alpha]
  from t h1 have c1: "is_error (fst (putWaitingAliasGeneration io_ok (Some maker) (Num 1) db0)) \<and>
      snd (putWaitingAliasGeneration io_ok (Some maker) (Num 1) db0) = db0" by blast
  from t h1 h2 have c2: "is_error (fst (put_registration_status env0 io_ok (Some ''Bearer token1'') (Num 1) ?b db0)) \<and>
      snd (put_registration_status env0 io_ok (Some ''Bearer token1'') (Num 1) ?b db0) = db0" by blast
  from t h1 h3 have c3: "is_error (fst (putBulkWaitingAliasGeneration io_ok (Some maker) [Num 1, Num 2] db0)) \<and>
      snd (putBulkWaitingAliasGeneration io_ok (Some maker) [Num 1, Num 2] db0) = db0" by blast
  from h1 h2 h3 c1 c2 c3 show ?thesis by blast
qed

text \<open>
  C5, as the code has it. With the merchants' keys distinct and an authenticated user,
  PUT /merchants/bulk-approve sets \<open>registration_status\<close> to WaitingAliasGeneration and
  \<open>checked_by\<close> to the user for every merchant named in \<open>ids\<close>, and answers 200, if and
  only if the ids are pairwise distinct, each is a number of at least 1 that names a
  merchant in Review whose recorded creator is another user, and the update itself does
  not fail. Otherwise no row is modified, and the answer is 422 (or 500, when the ids pass
  and only the update fails).
\<close>

theorem bulk_approve_all_or_nothing:
  assumes pk: "distinct (map merchant_id (merchants d))"
  shows "if distinct ids \<and> bulk_ok d (user_id u) ids \<and> update_result e = None
         then putBulkWaitingAliasGeneration e (Some u) ids d =
                (Response 200 (Message ''WAITINGALIASGENERATION Status Updated for multiple merchants''),
                 bulk_update d (user_id u) ids) \<and>
              (\<forall>n \<in> set ids.
                 (\<exists>m \<in> set (merchants (bulk_update d (user_id u) ids)). id_is n (merchant_id m)) \<and>
                 (\<forall>m \<in> set (merchants (bulk_update d (user_id u) ids)). id_is n (merchant_id m) \<longrightarrow>
                    registration_status m = WAITINGALIASGENERATION \<and> checked_by m = Some (user_id u)))
         else snd (putBulkWaitingAliasGeneration e (Some u) ids d) = d \<and>
              (status_of (fst (putBulkWaitingAliasGeneration e (Some u) ids d)) = Some 422 \<or>
               status_of (fst (putBulkWaitingAliasGeneration e (Some u) ids d)) = Some 500 \<and>
               update_result e \<noteq> None \<and> distinct ids \<and> bulk_ok d (user_id u) ids)"
proof (cases "distinct ids \<and> bulk_ok d (user_id u) ids")
  case True
  then have valid: "\<not> (\<exists>n \<in> set ids. isNaN n \<or> js_less n 1)" by (auto dest: bulk_ok_valid)
  with True pk have cnt: "bulk_count d (user_id u) ids = length ids" by (simp add: bulk_count_iff)
  have ex: "\<forall>n \<in> set ids. \<exists>m \<in> set (merchants (bulk_update d (user_id u) ids)). id_is n (merchant_id m)"
  proof
    fix n assume "n \<in> set ids"
    with True obtain m where "m \<in> set (merchants d)" "id_is n (merchant_id m)"
      by (auto simp: bulk_ok_def)
    then have "merchant_id m \<in> set (map merchant_id (merchants (bulk_update d (user_id u) ids)))"
      by (simp add: bulk_update_keys)
    with \<open>id_is n (merchant_id m)\<close>
    show "\<exists>m \<in> set (merchants (bulk_update d (user_id u) ids)). id_is n (merchant_id m)"
      by auto
  qed
  show ?thesis
  proof (cases "update_result e")
    case None
    with True valid cnt ex show ?thesis
      by (auto simp: putBulkWaitingAliasGeneration_def dest: bulk_update_rows)
  next
    case (Some err)
    with True valid cnt show ?thesis
      by (auto simp: putBulkWaitingAliasGeneration_def)
  qed
next
  case False
  show ?thesis
  proof (cases "\<exists>n \<in> set ids. isNaN n \<or> js_less n 1")
    case True
    with False show ?thesis by (auto simp: putBulkWaitingAliasGeneration_def)
  next
    case valid: False
    with False pk have "bulk_count d (user_id u) ids \<noteq> length ids" by (simp add: bulk_count_iff)
    with False valid show ?thesis by (auto simp: putBulkWaitingAliasGeneration_def)
  qed
qed

theorem bulk_approve_all_or_nothing_witness:
  "distinct (map merchant_id (merchants db0)) \<and>
   distinct [Num 1 :: js_number] \<and> bulk_ok db0 (user_id checker) [Num 1] \<and> update_result io_ok = None \<and>
   putBulkWaitingAliasGeneration io_ok (Some checker) [Num 1] db0 =
     (Response 200 (Message ''WAITINGALIASGENERATION Status Updated for multiple merchants''),
      bulk_update db0 (user_id checker) [Num 1]) \<and>
   stored_status (bulk_update db0 (user_id checker) [Num 1]) 1 = Some WAITINGALIASGENERATION \<and>
   stored_checked_by (bulk_update db0 (user_id checker) [Num 1]) 1 = Some (Some 2) \<and>
   \<not> bulk_ok db0 (user_id checker) [Num 1, Num 2] \<and>
   snd (putBulkWaitingAliasGeneration io_ok (Some checker) [Num 1, Num 2] db0) = db0 \<and>
   status_of (fst (putBulkWaitingAliasGeneration io_ok (Some checker) [Num 1, Num 2] db0)) = Some 422"
proof -
  have h1: "distinct (map merchant_id (merchants db0))"
    by (simp add: example_defs)
  have h2: "distinct [Num 1 :: js_number] \<and> bulk_ok db0 (user_id checker) [Num 1] \<and>
      update_result io_ok = None"
    by (simp add: bulk_ok_def example_defs)
  have h3: "\<not> bulk_ok db0 (user_id checker) [Num 1, Num 2]"
    by (simp add: bulk_ok_def example_defs)
  have h4: "update_result io_ok = None"
    by (simp add: example_defs)
  from bulk_approve_all_or_nothing [OF h1, of "[Num 1]" checker io_ok] h2
  have c1: "putBulkWaitingAliasGeneration io_ok (Some checker) [Num 1] db0 =
     (Response 200 (Message ''WAITINGALIASGENERATION Status Updated for multiple merchants''),
      bulk_update db0 (user_id checker) [Num 1])"
    by simp
  from bulk_approve_all_or_nothing [OF h1, of "[Num 1, Num 2]" checker io_ok] h3 h4
  have c2: "snd (putBulkWaitingAliasGeneration io_ok (Some checker) [Num 1, Num 2] db0) = db0 \<and>
      status_of (fst (putBulkWaitingAliasGeneration io_ok (Some checker) [Num 1, Num 2] db0)) = Some 422"
    by simp
  have e: "stored_status (bulk_update db0 (user_id checker) [Num 1]) 1 = Some WAITINGALIASGENERATION \<and>
      stored_checked_by (bulk_update db0 (user_id checker) [Num 1]) 1 = Some (Some 2)"
    by (simp add: bulk_update_def query_defs example_defs)
  from h1 h2 h3 c1 c2 e show ?thesis by blast
qed

text \<open>
  C5 as it is written fails: an id given twice names, each time, a merchant in Review
  that another user created, and the request is answered 422 with nothing modified.
\<close>

theorem bulk_approve_all_or_nothing_counterexample:
  "bulk_ok db0 (user_id checker) [Num 1, Num 1] \<and>
   putBulkWaitingAliasGeneration io_ok (Some checker) [Num 1, Num 1] db0 =
     (Response 422
        (Message ''All IDs must be valid and have a status of \"Review\". and not created by you''), db0)"
  by (simp add: putBulkWaitingAliasGeneration_def bulk_count_def bulk_candidate_def
      bulk_ok_def query_defs example_defs)

subsection \<open>The claim on the login\<close>




subsection \<open>Passwords\<close>

lemma draft_failure_passwords: "response_passwords (draft_failure err) = []"
  by (cases err) (simp_all add: draft_failure_def)

lemma draft_revert_passwords: "response_passwords (fst (draft_revert err c d)) = []"
  by (simp add: draft_revert_def draft_failure_passwords split: option.splits)

lemma license_data_passwords: "license_passwords (license_data l) = []"
  by (simp add: license_passwords_def license_data_def)

lemma loaded_license_passwords: "license_passwords (loaded_license r) = []"
  by (simp add: license_passwords_def loaded_license_def)

lemma post_draft_save_passwords:
  "response_passwords (fst (post_draft_save e b file pu m c d)) = []"
  by (simp add: post_draft_save_def Let_def draft_failure_passwords merchant_passwords_def
      user_passwords_def license_passwords_def license_data_def
      split: option.splits sum.splits prod.splits)

lemma draft_new_counter_passwords:
  "draft_new_counter e b d = Inl r \<Longrightarrow> response_passwords (fst r) = []"
  by (auto simp: draft_new_counter_def Let_def split: option.splits if_splits thrown.splits prod.splits)

lemma post_merchants_draft_passwords:
  "response_passwords (fst (post_merchants_draft v e sch a b file d)) = []"
  by (auto simp: post_merchants_draft_def Let_def post_draft_save_passwords
      dest: draft_new_counter_passwords split: option.splits sum.splits prod.splits)

lemma put_draft_save_passwords:
  "response_passwords (fst (put_draft_save e b file pu m c d)) = []"
  by (simp add: put_draft_save_def Let_def draft_revert_passwords merchant_passwords_def
      user_passwords_def license_passwords_def license_data_def license_data_passwords
      split: option.splits sum.splits prod.splits list.splits)

lemma draft_counter_passwords:
  "draft_counter e b m d = Inl r \<Longrightarrow> response_passwords (fst r) = []"
  by (auto simp: draft_counter_def own_counter_def Let_def split: option.splits if_splits thrown.splits prod.splits)

lemma putMerchantDraft_passwords:
  "response_passwords (fst (putMerchantDraft v e sch a n b file d)) = []"
  by (auto simp: putMerchantDraft_def Let_def put_draft_save_passwords
      dest: draft_counter_passwords split: option.splits sum.splits prod.splits)

lemma update_counter_passwords:
  "update_counter e b m d = Inl r \<Longrightarrow> response_passwords (fst r) = []"
  by (auto simp: update_counter_def Let_def split: option.splits if_splits list.splits prod.splits)

lemma update_licenses_passwords:
  "update_licenses e b m d = Inl r \<Longrightarrow> response_passwords (fst r) = []"
  by (auto simp: update_licenses_def Let_def split: option.splits if_splits list.splits prod.splits)

lemma put_draft_update_passwords:
  "response_passwords (fst (put_draft_update v e sch a n b d)) = []"
  by (auto simp: put_draft_update_def Let_def merchant_passwords_def user_passwords_def
      loaded_license_passwords
      dest: update_counter_passwords update_licenses_passwords
      split: option.splits sum.splits prod.splits thrown.splits)

lemma listed_merchant_passwords: "merchant_passwords (listed_merchant d m) = []"
  by (simp add: listed_merchant_def merchant_passwords_def user_passwords_def delete_password_def
      option_list_def split: option.splits)

lemma getMerchants_passwords:
  "response_passwords (getMerchants e p pu q d) = []"
  by (simp add: getMerchants_def Let_def listed_merchant_passwords split: option.splits)

lemma get_merchants_passwords: "response_passwords (get_merchants e d) = []"
  by (simp add: get_merchants_def merchant_passwords_def user_passwords_def split: option.splits)

lemma get_merchant_passwords: "response_passwords (get_merchant e n d) = []"
  by (simp add: get_merchant_def Let_def merchant_passwords_def user_passwords_def
      public_user_def option_list_def loaded_license_passwords split: option.splits)

lemma post_draft_save_created_by:
  "fst (post_draft_save e b file pu m c d) = Response s (MessageData msg x) \<Longrightarrow> mo_created_by x = None"
  by (auto simp: post_draft_save_def Let_def draft_failure_def
      split: option.splits sum.splits prod.splits thrown.splits if_splits)

lemma draft_new_counter_no_data:
  "draft_new_counter e b d = Inl r \<Longrightarrow> fst r \<noteq> Response s (MessageData msg x)"
  by (auto simp: draft_new_counter_def Let_def split: option.splits if_splits thrown.splits prod.splits)

lemma post_merchants_draft_created_by:
  "fst (post_merchants_draft v e sch a b file d) = Response s (MessageData msg x) \<Longrightarrow>
   mo_created_by x = None"
  by (auto simp: post_merchants_draft_def Let_def
      dest: draft_new_counter_no_data post_draft_save_created_by
      split: option.splits sum.splits prod.splits)

lemma draft_revert_no_data: "fst (draft_revert err c d) \<noteq> Response s (MessageData msg x)"
  by (auto simp: draft_revert_def draft_failure_def split: option.splits thrown.splits)

lemma put_draft_save_created_by:
  "fst (put_draft_save e b file pu m c d) = Response s (MessageData msg x) \<Longrightarrow> mo_created_by x = None"
  by (auto simp: put_draft_save_def Let_def draft_revert_no_data
      split: option.splits sum.splits prod.splits if_splits)

lemma draft_counter_no_data:
  "draft_counter e b m d = Inl r \<Longrightarrow> fst r \<noteq> Response s (MessageData msg x)"
  by (auto simp: draft_counter_def own_counter_def Let_def split: option.splits if_splits thrown.splits prod.splits)

lemma putMerchantDraft_created_by:
  "fst (putMerchantDraft v e sch a n b file d) = Response s (MessageData msg x) \<Longrightarrow>
   mo_created_by x = None"
  by (auto simp: putMerchantDraft_def Let_def
      dest: draft_counter_no_data put_draft_save_created_by
      split: option.splits sum.splits prod.splits if_splits)

lemma update_counter_no_data:
  "update_counter e b m d = Inl r \<Longrightarrow> fst r \<noteq> Response s (MessageData msg x)"
  by (auto simp: update_counter_def Let_def split: option.splits if_splits list.splits prod.splits)

lemma update_licenses_no_data:
  "update_licenses e b m d = Inl r \<Longrightarrow> fst r \<noteq> Response s (MessageData msg x)"
  by (auto simp: update_licenses_def Let_def split: option.splits if_splits list.splits prod.splits)

lemma put_draft_update_created_by:
  "fst (put_draft_update v e sch a n b d) = Response s (MessageData msg x) \<Longrightarrow>
   mo_created_by x = None"
  by (auto simp: put_draft_update_def Let_def
      dest: update_counter_no_data update_licenses_no_data
      split: option.splits sum.splits prod.splits thrown.splits if_splits)

text \<open>
  C8. No response of the endpoints that read merchants or write drafts carries a password
  hash of a portal user: not GET /merchants (in either version), not GET /merchants/:id,
  not POST /merchants/draft, PUT /merchants/:id/draft or PUT /merchants/draft/:id/update;
  and a merchant in the answer of the three draft handlers has no \<open>created_by\<close>.
\<close>

theorem no_password_in_responses:
  "response_passwords (getMerchants e p pu q d) = [] \<and>
   response_passwords (get_merchants e d) = [] \<and>
   response_passwords (get_merchant e n d) = [] \<and>
   response_passwords (fst (post_merchants_draft v e sch a b file d)) = [] \<and>
   response_passwords (fst (putMerchantDraft v e sch a n b file d)) = [] \<and>
   response_passwords (fst (put_draft_update v e sch a n b d)) = [] \<and>
   (\<forall>s msg x. fst (post_merchants_draft v e sch a b file d) = Response s (MessageData msg x) \<longrightarrow>
      mo_created_by x = None) \<and>
   (\<forall>s msg x. fst (putMerchantDraft v e sch a n b file d) = Response s (MessageData msg x) \<longrightarrow>
      mo_created_by x = None) \<and>
   (\<forall>s msg x. fst (put_draft_update v e sch a n b d) = Response s (MessageData msg x) \<longrightarrow>
      mo_created_by x = None)"
  by (intro conjI allI impI getMerchants_passwords get_merchants_passwords get_merchant_passwords
      post_merchants_draft_passwords putMerchantDraft_passwords put_draft_update_passwords
      post_merchants_draft_created_by putMerchantDraft_created_by put_draft_update_created_by)

theorem no_password_in_responses_witness:
  "map user_password (portal_users db0) = [''hash1'', ''hash2''] \<and>
   get_merchant io_ok (Num 1) db0 = Response 200 (MessageData ''OK''
     \<lparr>mo_row = alpha,
      mo_created_by = Some \<lparr>uo_id = 1, uo_name = Some ''Maker'', uo_email = Some ''maker@example.com'',
        uo_phone_number = Some ''111'', uo_password = None\<rparr>,
      mo_checked_by = None,
      mo_checkout_counters =
        [\<lparr>counter_id = Some 1, alias_value = Some ''alpha'', counter_merchant = Some 1\<rparr>],
      mo_business_licenses = []\<rparr>) \<and>
   response_passwords (get_merchant io_ok (Num 1) db0) = [] \<and>
   response_passwords (getMerchants io_ok platform0 (Some checker) query0 db0) = [] \<and>
   (\<exists>x. fst (putMerchantDraft env0 io_ok any_body (Some ''Bearer token1'') (Num 3) body0 False db0) =
      Response 201 (MessageData ''Updating Merchant Draft Successful'' x) \<and> mo_created_by x = None)"
proof -
  let ?r = "putMerchantDraft env0 io_ok any_body (Some ''Bearer token1'') (Num 3) body0 False db0"
  note t = no_password_in_responses [of io_ok platform0 "Some checker" query0 db0 "Num 1" env0
      any_body "Some ''Bearer token1''" body0 False]
  note t3 = no_password_in_responses [of io_ok platform0 "Some checker" query0 db0 "Num 3" env0
      any_body "Some ''Bearer token1''" body0 False]
  have h1: "map user_password (portal_users db0) = [''hash1'', ''hash2'']"
    by (simp add: example_defs)
  have h2: "get_merchant io_ok (Num 1) db0 = Response 200 (MessageData ''OK''
     \<lparr>mo_row = alpha,
      mo_created_by = Some \<lparr>uo_id = 1, uo_name = Some ''Maker'', uo_email = Some ''maker@example.com'',
        uo_phone_number = Some ''111'', uo_password = None\<rparr>,
      mo_checked_by = None,
      mo_checkout_counters =
        [\<lparr>counter_id = Some 1, alias_value = Some ''alpha'', counter_merchant = Some 1\<rparr>],
      mo_business_licenses = []\<rparr>)"
    by (simp add: get_merchant_def public_user_def counters_of_def licenses_of_def
        query_defs example_defs)
  have h3: "\<exists>x. fst ?r = Response 201 (MessageData ''Updating Merchant Draft Successful'' x)"
    by (simp add: putMerchantDraft_def submit_parse_def draft_counter_def own_counter_def put_draft_save_def
        counters_of_def licenses_of_def exists_alias_def new_counter_def save_counter_def
        query_defs example_defs example2_defs)
  then obtain x where x: "fst ?r = Response 201 (MessageData ''Updating Merchant Draft Successful'' x)"
    by blast
  with t3 have "mo_created_by x = None" by blast
  with x have c3: "\<exists>x. fst ?r = Response 201 (MessageData ''Updating Merchant Draft Successful'' x) \<and>
      mo_created_by x = None" by blast
  from t have c1: "response_passwords (get_merchant io_ok (Num 1) db0) = []"
    and c2: "response_passwords (getMerchants io_ok platform0 (Some checker) query0 db0) = []"
    by blast+
  from h1 h2 c1 c2 c3 show ?thesis by blast
qed

subsection \<open>The claim on the status codes\<close>

text \<open>
  C6, as the code has it. GET /merchants/:id and PUT /merchants/:id/approve answer 422 to
  an id that is not a number, 404 to the id of no merchant and 500 to a query that throws
  (the approval also to a QueryFailedError of its save), and the approval answers 401 to
  a request without a user. The codes are not kept apart by kind of failure: the approval
  answers 401 to a merchant that is not in Review and 400 to the merchant's creator, and
  PUT /merchants/:id/draft answers 401 without a known token, 422 to a body or an id that
  is not valid, and 422 again, not 404, to the id of no merchant.
\<close>

theorem status_codes:
  "(isNaN n \<longrightarrow> status_of (get_merchant e n d) = Some 422) \<and>
   (\<not> isNaN n \<and> query_result e \<noteq> None \<longrightarrow> status_of (get_merchant e n d) = Some 500) \<and>
   (\<not> isNaN n \<and> query_result e = None \<and> findOne_merchant d n = None \<longrightarrow>
      status_of (get_merchant e n d) = Some 404) \<and>
   status_of (fst (putWaitingAliasGeneration e None n d)) = Some 401 \<and>
   (isNaN n \<longrightarrow> status_of (fst (putWaitingAliasGeneration e (Some u) n d)) = Some 422) \<and>
   (\<not> isNaN n \<and> query_result e \<noteq> None \<longrightarrow>
      status_of (fst (putWaitingAliasGeneration e (Some u) n d)) = Some 500) \<and>
   (\<not> isNaN n \<and> query_result e = None \<and> findOne_merchant d n = None \<longrightarrow>
      status_of (fst (putWaitingAliasGeneration e (Some u) n d)) = Some 404) \<and>
   (query_result e = None \<and> findOne_merchant d n = Some m \<and>
    relation_user d (created_by m) = Some c \<longrightarrow>
      status_of (fst (putWaitingAliasGeneration e (Some u) n d)) =
        (if user_id u = user_id c then Some 400
         else if registration_status m \<noteq> REVIEW then Some 401
         else case save_merchant_result e of
                Some (QueryFailedError msg) \<Rightarrow> Some 500
              | _ \<Rightarrow> Some 200)) \<and>
   (dummy_auth v d a = None \<longrightarrow>
      status_of (fst (putMerchantDraft v e sch a n b file d)) = Some 401) \<and>
   (dummy_auth v d a \<noteq> None \<and>
    (submit_parse sch b = None \<or> isNaN n \<or> findOne_merchant d n = None) \<longrightarrow>
      status_of (fst (putMerchantDraft v e sch a n b file d)) = Some 422)"
proof (intro conjI impI)
  show "status_of (fst (putWaitingAliasGeneration e None n d)) = Some 401"
    by (simp add: putWaitingAliasGeneration_def)
next
  assume "isNaN n"
  then show "status_of (get_merchant e n d) = Some 422"
    and "status_of (fst (putWaitingAliasGeneration e (Some u) n d)) = Some 422"
    by (simp_all add: get_merchant_def putWaitingAliasGeneration_def)
next
  assume "\<not> isNaN n \<and> query_result e \<noteq> None"
  then show "status_of (get_merchant e n d) = Some 500"
    and "status_of (fst (putWaitingAliasGeneration e (Some u) n d)) = Some 500"
    by (auto simp: get_merchant_def putWaitingAliasGeneration_def)
next
  assume "\<not> isNaN n \<and> query_result e = None \<and> findOne_merchant d n = None"
  then show "status_of (get_merchant e n d) = Some 404"
    and "status_of (fst (putWaitingAliasGeneration e (Some u) n d)) = Some 404"
    by (simp_all add: get_merchant_def putWaitingAliasGeneration_def)
next
  assume h: "query_result e = None \<and> findOne_merchant d n = Some m \<and>
    relation_user d (created_by m) = Some c"
  then have "\<not> isNaN n" by (cases n) (auto simp: findOne_merchant_def find_Some_iff)
  with h show "status_of (fst (putWaitingAliasGeneration e (Some u) n d)) =
        (if user_id u = user_id c then Some 400
         else if registration_status m \<noteq> REVIEW then Some 401
         else case save_merchant_result e of
                Some (QueryFailedError msg) \<Rightarrow> Some 500
              | _ \<Rightarrow> Some 200)"
    by (simp add: putWaitingAliasGeneration_def Let_def split: option.splits thrown.splits)
next
  assume "dummy_auth v d a = None"
  then show "status_of (fst (putMerchantDraft v e sch a n b file d)) = Some 401"
    by (simp add: putMerchantDraft_def)
next
  assume "dummy_auth v d a \<noteq> None \<and>
    (submit_parse sch b = None \<or> isNaN n \<or> findOne_merchant d n = None)"
  then show "status_of (fst (putMerchantDraft v e sch a n b file d)) = Some 422"
    by (auto simp: putMerchantDraft_def split: option.splits)
qed

theorem status_codes_witness:
  "isNaN NaN \<and> status_of (get_merchant io_ok NaN db0) = Some 422 \<and>
   \<not> isNaN (Num 1) \<and> query_result (io_ok\<lparr>query_result := Some (OtherError ''down'')\<rparr>) \<noteq> None \<and>
   status_of (get_merchant (io_ok\<lparr>query_result := Some (OtherError ''down'')\<rparr>) (Num 1) db0) = Some 500 \<and>
   \<not> isNaN (Num 9) \<and> query_result io_ok = None \<and> findOne_merchant db0 (Num 9) = None \<and>
   status_of (get_merchant io_ok (Num 9) db0) = Some 404 \<and>
   status_of (fst (putWaitingAliasGeneration io_ok (Some checker) (Num 9) db0)) = Some 404 \<and>
   findOne_merchant db0 (Num 3) = Some gamma \<and> relation_user db0 (created_by gamma) = Some maker \<and>
   status_of (fst (putWaitingAliasGeneration io_ok (Some checker) (Num 3) db0)) = Some 401 \<and>
   dummy_auth env0 db0 None = None \<and>
   status_of (fst (putMerchantDraft env0 io_ok any_body None (Num 3) body0 False db0)) = Some 401 \<and>
   dummy_auth env0 db0 (Some ''Bearer token1'') \<noteq> None \<and>
   status_of (fst (putMerchantDraft env0 io_ok any_body (Some ''Bearer token1'') (Num 9) body0 False db0)) =
     Some 422"
proof -
  let ?down = "io_ok\<lparr>query_result := Some (OtherError ''down'')\<rparr>"
  have h1: "isNaN NaN" by simp
  have h2: "\<not> isNaN (Num 1) \<and> query_result ?down \<noteq> None" by simp
  have h3: "\<not> isNaN (Num 9) \<and> query_result io_ok = None \<and> findOne_merchant db0 (Num 9) = None"
    by (simp add: query_defs example_defs)
  have h4: "query_result io_ok = None \<and> findOne_merchant db0 (Num 3) = Some gamma \<and>
      relation_user db0 (created_by gamma) = Some maker"
    by (simp add: query_defs example_defs)
  have h5: "dummy_auth env0 db0 None = None"
    by (simp add: query_defs example_defs)
  have h6: "dummy_auth env0 db0 (Some ''Bearer token1'') \<noteq> None"
    by (simp add: query_defs example_defs)
  have g: "user_id checker \<noteq> user_id maker \<and> registration_status gamma \<noteq> REVIEW"
    by (simp add: example_defs)
  from status_codes [of NaN io_ok db0] h1
  have c1: "status_of (get_merchant io_ok NaN db0) = Some 422" by simp
  from status_codes [of "Num 1" ?down db0] h2
  have c2: "status_of (get_merchant ?down (Num 1) db0) = Some 500" by simp
  note t9 = status_codes [of "Num 9" io_ok db0 checker gamma maker env0
      "Some ''Bearer token1''" any_body body0 False]
  from t9 h3 have c3: "status_of (get_merchant io_ok (Num 9) db0) = Some 404 \<and>
      status_of (fst (putWaitingAliasGeneration io_ok (Some checker) (Num 9) db0)) = Some 404"
    by simp
  from t9 h3 h6
  have c6: "status_of (fst (putMerchantDraft env0 io_ok any_body (Some ''Bearer token1'') (Num 9) body0 False db0)) =
     Some 422" by simp
  from status_codes [of "Num 3" io_ok db0 checker gamma maker] h4
  have "status_of (fst (putWaitingAliasGeneration io_ok (Some checker) (Num 3) db0)) =
        (if user_id checker = user_id maker then Some 400
         else if registration_status gamma \<noteq> REVIEW then Some 401
         else case save_merchant_result io_ok of
                Some (QueryFailedError msg) \<Rightarrow> Some 500
              | _ \<Rightarrow> Some 200)" by simp
  with g have c4: "status_of (fst (putWaitingAliasGeneration io_ok (Some checker) (Num 3) db0)) = Some 401"
    by simp
  from status_codes [of "Num 3" io_ok db0 checker gamma maker env0 None any_body body0 False] h5
  have c5: "status_of (fst (putMerchantDraft env0 io_ok any_body None (Num 3) body0 False db0)) = Some 401"
    by simp
  from h1 h2 h3 h4 h5 h6 c1 c2 c3 c4 c5 c6 show ?thesis by simp
qed

text \<open>
  C6 as it is written fails: the draft update answers 422, the code of a validation
  failure, to the id of no merchant, and the approval answers 401, the code of a request
  without authorization, to an authenticated checker whose merchant is still a draft.
\<close>

theorem status_codes_counterexample:
  "dummy_auth env0 db0 (Some ''Bearer token1'') = Some (Some maker) \<and>
   submit_parse any_body body0 = Some DRAFT \<and>
   findOne_merchant db0 (Num 9) = None \<and>
   putMerchantDraft env0 io_ok any_body (Some ''Bearer token1'') (Num 9) body0 False db0 =
     (Response 422 (Error ''Merchant ID does not exist''), db0) \<and>
   findOne_merchant db0 (Num 3) = Some gamma \<and>
   putWaitingAliasGeneration io_ok (Some checker) (Num 3) db0 =
     (Response 401 (Error ''Only Review Merchant can be approved with WaitingAliasGeneration''), db0)"
  by (simp add: putMerchantDraft_def putWaitingAliasGeneration_def submit_parse_def
      query_defs example_defs example2_defs)

subsection \<open>The claim on who updates a draft\<close>

text \<open>
  PUT /merchants/draft/:id/update checks the creator. Asked by an authenticated portal
  user who is not the one recorded in \<open>created_by\<close> of the merchant, it answers with an
  error and leaves the database as it was; the error is 401 when the body and the status
  pass validation, the query does not throw and the creator's row exists (422 or 500
  otherwise).
\<close>

lemma put_draft_update_checks_creator:
  "dummy_auth v d a = Some (Some u) \<and> findOne_merchant d n = Some m \<and>
   created_by m = Some c \<and> c \<noteq> user_id u \<longrightarrow>
     is_error (fst (put_draft_update v e sch a n b d)) \<and>
     snd (put_draft_update v e sch a n b d) = d \<and>
     (sch b \<and> nativeEnum_parse (b_registration_status b) \<noteq> None \<and> query_result e = None \<and>
      findOne_user d c \<noteq> None \<longrightarrow>
        fst (put_draft_update v e sch a n b d) =
          Response 401 (Message ''Only The Same Drafted User is allowed.''))"
proof (intro impI)
  assume h: "dummy_auth v d a = Some (Some u) \<and> findOne_merchant d n = Some m \<and>
   created_by m = Some c \<and> c \<noteq> user_id u"
  then have nn: "\<not> isNaN n" by (cases n) (auto simp: findOne_merchant_def find_Some_iff)
  have cr: "\<And>x. findOne_user d c = Some x \<Longrightarrow> user_id x = c"
    by (auto simp: findOne_user_def find_Some_iff)
  from h nn cr show "is_error (fst (put_draft_update v e sch a n b d)) \<and>
     snd (put_draft_update v e sch a n b d) = d \<and>
     (sch b \<and> nativeEnum_parse (b_registration_status b) \<noteq> None \<and> query_result e = None \<and>
      findOne_user d c \<noteq> None \<longrightarrow>
        fst (put_draft_update v e sch a n b d) =
          Response 401 (Message ''Only The Same Drafted User is allowed.''))"
    by (auto simp: put_draft_update_def relation_user_def split: option.splits)
qed

text \<open>
  C3. Only the user who created a draft may update it: a draft update asked by another
  portal user is to be answered 401 and to change nothing. PUT /merchants/:id/draft does
  otherwise, having no check of the creator. The maker created the draft of merchant 3,
  whose checkout counter has the alias of the body already, so that no counter is
  written. The checker sends the update: the answer is 201, the merchant is updated, and
  the checker is recorded as its creator. The same request to
  PUT /merchants/draft/:id/update is answered 401 and changes nothing.
\<close>

theorem draft_updated_by_another_user:
  "dummy_auth env0 db_shared (Some ''Bearer token2'') = Some (Some checker) \<and>
   findOne_merchant db_shared (Num 3) = Some gamma \<and> registration_status gamma = DRAFT \<and>
   created_by gamma = Some (user_id maker) \<and> user_id checker \<noteq> user_id maker \<and>
   own_counter db_shared gamma =
     \<lparr>counter_id = Some 2, alias_value = Some ''shared'', counter_merchant = Some 3\<rparr> \<and>
   b_payinto_alias body0 = Some ''shared'' \<and>
   putMerchantDraft env0 io_ok any_body (Some ''Bearer token2'') (Num 3) body0 False db_shared =
     (Response 201 (MessageData ''Updating Merchant Draft Successful''
        \<lparr>mo_row = gamma\<lparr>dba_trading_name := ''Gamma Two'',
                   registration_status_reason := ''Drafted by Maker'',
                   created_by := Some (user_id checker)\<rparr>,
         mo_created_by = None, mo_checked_by = None,
         mo_checkout_counters =
           [\<lparr>counter_id = Some 2, alias_value = Some ''shared'', counter_merchant = Some 3\<rparr>],
         mo_business_licenses = []\<rparr>),
      db_shared\<lparr>merchants := [alpha, beta,
        gamma\<lparr>dba_trading_name := ''Gamma Two'', registration_status_reason := ''Drafted by Maker'',
              created_by := Some (user_id checker)\<rparr>]\<rparr>) \<and>
   put_draft_update env0 io_ok any_body (Some ''Bearer token2'') (Num 3) body0 db_shared =
     (Response 401 (Message ''Only The Same Drafted User is allowed.''), db_shared)"
  by (simp add: putMerchantDraft_def put_draft_update_def submit_parse_def draft_counter_def own_counter_def
      put_draft_save_def assign_body_def save_merchant_with_def link_counters_def link_licenses_def
      counters_of_def licenses_of_def exists_alias_def new_counter_def save_counter_def
      counter_keys_def fresh_id_def
      query_defs example_defs example2_defs)

subsection \<open>The claim on a duplicate alias\<close>

lemma findOne_counter_by_alias_Some:
  "\<exists>r \<in> set (checkout_counters d). alias_value r = Some al \<Longrightarrow>
   \<exists>c. findOne_counter_by_alias d al = Some c"
  by (cases "findOne_counter_by_alias d al") (auto simp: findOne_counter_by_alias_def find_None_iff)

text \<open>
  C4, as the code has it. A request with one of the two known tokens whose
  \<open>payinto_alias\<close> is the alias of a checkout counter that exists is answered 422, and the
  database is left as it was: by POST /merchants/draft when the alias is not the empty
  string, and by PUT /merchants/:id/draft unless the merchant has exactly one counter of
  its own and that counter carries the alias already.
\<close>

theorem duplicate_alias_refused:
  "(dummy_auth v d a \<noteq> None \<and> b_payinto_alias b = Some al \<and> al \<noteq> [] \<and>
    (\<exists>r \<in> set (checkout_counters d). alias_value r = Some al) \<longrightarrow>
      status_of (fst (post_merchants_draft v e sch a b pdf d)) = Some 422 \<and>
      snd (post_merchants_draft v e sch a b pdf d) = d) \<and>
   (dummy_auth v d a \<noteq> None \<and> b_payinto_alias b = Some al \<and>
    (\<exists>r \<in> set (checkout_counters d). alias_value r = Some al) \<and>
    (\<forall>m c. findOne_merchant d n = Some m \<and> counters_of d (merchant_id m) = [c] \<longrightarrow>
       alias_value c \<noteq> Some al) \<longrightarrow>
      status_of (fst (putMerchantDraft v e sch a n b pdf d)) = Some 422 \<and>
      snd (putMerchantDraft v e sch a n b pdf d) = d)"
proof (intro conjI impI)
  assume h: "dummy_auth v d a \<noteq> None \<and> b_payinto_alias b = Some al \<and> al \<noteq> [] \<and>
    (\<exists>r \<in> set (checkout_counters d). alias_value r = Some al)"
  then obtain c where c: "findOne_counter_by_alias d al = Some c"
    using findOne_counter_by_alias_Some by blast
  with h have dc: "draft_new_counter e b d =
      Inl (Response 422 (Error (''Alias Value already exists: '' @ al @ '' '')), d)"
    by (simp add: draft_new_counter_def)
  with h show "status_of (fst (post_merchants_draft v e sch a b pdf d)) = Some 422"
    and "snd (post_merchants_draft v e sch a b pdf d) = d"
    by (auto simp: post_merchants_draft_def split: option.splits)
next
  assume h: "dummy_auth v d a \<noteq> None \<and> b_payinto_alias b = Some al \<and>
    (\<exists>r \<in> set (checkout_counters d). alias_value r = Some al) \<and>
    (\<forall>m c. findOne_merchant d n = Some m \<and> counters_of d (merchant_id m) = [c] \<longrightarrow>
       alias_value c \<noteq> Some al)"
  have dc: "\<And>m. findOne_merchant d n = Some m \<Longrightarrow> draft_counter e b m d =
      Inl (Response 422 (Error (''PayInto Alias Value already exists: '' @ al)), d)"
    using h by (auto simp: draft_counter_def own_counter_def Let_def exists_alias_def new_counter_def
        split: list.splits)
  from h dc show "status_of (fst (putMerchantDraft v e sch a n b pdf d)) = Some 422"
    and "snd (putMerchantDraft v e sch a n b pdf d) = d"
    by (auto simp: putMerchantDraft_def split: option.splits)
qed

theorem duplicate_alias_refused_witness:
  "dummy_auth env0 db0 (Some ''Bearer token1'') \<noteq> None \<and>
   b_payinto_alias (body0\<lparr>b_payinto_alias := Some ''alpha''\<rparr>) = Some ''alpha'' \<and> ''alpha'' \<noteq> [] \<and>
   (\<exists>r \<in> set (checkout_counters db0). alias_value r = Some ''alpha'') \<and>
   findOne_merchant db0 (Num 3) = Some gamma \<and> counters_of db0 (merchant_id gamma) = [] \<and>
   status_of (fst (post_merchants_draft env0 io_ok any_body (Some ''Bearer token1'')
     (body0\<lparr>b_payinto_alias := Some ''alpha''\<rparr>) False db0)) = Some 422 \<and>
   snd (post_merchants_draft env0 io_ok any_body (Some ''Bearer token1'')
     (body0\<lparr>b_payinto_alias := Some ''alpha''\<rparr>) False db0) = db0 \<and>
   status_of (fst (putMerchantDraft env0 io_ok any_body (Some ''Bearer token1'') (Num 3)
     (body0\<lparr>b_payinto_alias := Some ''alpha''\<rparr>) False db0)) = Some 422 \<and>
   snd (putMerchantDraft env0 io_ok any_body (Some ''Bearer token1'') (Num 3)
     (body0\<lparr>b_payinto_alias := Some ''alpha''\<rparr>) False db0) = db0"
proof -
  let ?b = "body0\<lparr>b_payinto_alias := Some ''alpha''\<rparr>"
  have h1: "dummy_auth env0 db0 (Some ''Bearer token1'') \<noteq> None"
    by (simp add: query_defs example_defs)
  have h2: "b_payinto_alias ?b = Some ''alpha'' \<and> ''alpha'' \<noteq> []"
    by simp
  have h3: "\<exists>r \<in> set (checkout_counters db0). alias_value r = Some ''alpha''"
    by (simp add: example_defs)
  have h0: "findOne_merchant db0 (Num 3) = Some gamma \<and> counters_of db0 (merchant_id gamma) = []"
    by (simp add: counters_of_def query_defs example_defs)
  then have h4: "\<forall>m c. findOne_merchant db0 (Num 3) = Some m \<and> counters_of db0 (merchant_id m) = [c] \<longrightarrow>
      alias_value c \<noteq> Some ''alpha''"
    by simp
  note t = duplicate_alias_refused [where v = env0 and d = db0 and a = "Some ''Bearer token1''"
      and b = ?b and al = "''alpha''" and e = io_ok and sch = any_body and pdf = False
      and n = "Num 3"]
  from t h1 h2 h3
  have c1: "status_of (fst (post_merchants_draft env0 io_ok any_body (Some ''Bearer token1'') ?b False db0)) =
      Some 422 \<and>
      snd (post_merchants_draft env0 io_ok any_body (Some ''Bearer token1'') ?b False db0) = db0"
    by blast
  from t h1 h2 h3 h4
  have c2: "status_of (fst (putMerchantDraft env0 io_ok any_body (Some ''Bearer token1'') (Num 3) ?b False db0)) =
      Some 422 \<and>
      snd (putMerchantDraft env0 io_ok any_body (Some ''Bearer token1'') (Num 3) ?b False db0) = db0"
    by blast
  from h0 h1 h2 h3 c1 c2 show ?thesis by blast
qed

text \<open>
  C4 as it is written fails. The alias of the body is the alias of counter 3, a counter of
  another merchant; it is also the alias of the one counter of merchant 3, so PUT
  /merchants/3/draft looks nothing up and answers 201. And a request without a token is
  answered 401, whatever its alias.
\<close>

theorem duplicate_alias_refused_counterexample:
  "b_payinto_alias body0 = Some ''shared'' \<and>
   \<lparr>counter_id = Some 3, alias_value = Some ''shared'', counter_merchant = Some 2\<rparr>
     \<in> set (checkout_counters db_shared) \<and>
   counters_of db_shared 3 =
     [\<lparr>counter_id = Some 2, alias_value = Some ''shared'', counter_merchant = Some 3\<rparr>] \<and>
   status_of (fst (putMerchantDraft env0 io_ok any_body (Some ''Bearer token1'') (Num 3) body0 False
     db_shared)) = Some 201 \<and>
   post_merchants_draft env0 io_ok any_body None (body0\<lparr>b_payinto_alias := Some ''alpha''\<rparr>) False db0 =
     (Response 401 (Message ''Unauthorized''), db0)"
  by (simp add: putMerchantDraft_def post_merchants_draft_def submit_parse_def draft_counter_def own_counter_def
      put_draft_save_def counters_of_def licenses_of_def
      query_defs example_defs example2_defs)

subsection \<open>The claim on the counter of a failed draft update\<close>

lemma key_alias_save_merchant_with:
  "key_alias (save_merchant_with d m cs ls) = key_alias d"
  by (simp add: key_alias_def save_merchant_with_def save_merchant_def link_counters_def
      link_licenses_def Let_def comp_def split: option.splits)

lemma key_alias_save_license: "key_alias (fst (save_license d l)) = key_alias d"
  by (simp add: key_alias_def save_license_def Let_def split: option.splits)

lemma key_alias_saved_license:
  "save_license d l = (d', l') \<Longrightarrow> key_alias d' = key_alias d"
  using key_alias_save_license [of d l] by simp

lemma key_alias_delete:
  "key_alias (delete_counter d k) = filter (\<lambda>p. fst p \<noteq> Some k) (key_alias d)"
  by (simp add: key_alias_def delete_counter_def filter_map comp_def)

lemma draft_revert_keyed:
  "counter_id c = Some k \<Longrightarrow>
   status_of (fst (draft_revert err c d)) = Some 500 \<and> snd (draft_revert err c d) = delete_counter d k"
  by (cases err) (simp_all add: draft_revert_def draft_failure_def)

lemma put_draft_save_reverts:
  assumes k: "counter_id c = Some k"
    and thrown: "save_merchant_result e \<noteq> None \<or>
      pdf \<and> (\<exists>path. upload_result e = Inr (Some path)) \<and>
      (save_license_result e \<noteq> None \<or> resave_merchant_result e \<noteq> None)"
  shows "status_of (fst (put_draft_save e b pdf pu m c d)) = Some 500 \<and>
         key_alias (snd (put_draft_save e b pdf pu m c d)) =
           filter (\<lambda>p. fst p \<noteq> Some k) (key_alias d)"
proof (cases "save_merchant_result e")
  case (Some err)
  with k show ?thesis
    by (simp add: put_draft_save_def Let_def draft_revert_keyed key_alias_delete)
next
  case None
  with thrown obtain path where p: "pdf" "upload_result e = Inr (Some path)"
    and s: "save_license_result e \<noteq> None \<or> resave_merchant_result e \<noteq> None" by blast
  show ?thesis
  proof (cases "save_license_result e")
    case (Some err)
    with None p k show ?thesis
      by (simp add: put_draft_save_def Let_def draft_revert_keyed key_alias_delete
          key_alias_save_merchant_with)
  next
    case sl: None
    with s obtain err where r: "resave_merchant_result e = Some err" by auto
    from None p k sl r show ?thesis
      by (auto simp: put_draft_save_def Let_def draft_revert_keyed key_alias_delete
          key_alias_save_merchant_with dest!: key_alias_saved_license split: prod.splits)
  qed
qed

lemma save_counter_keyed:
  assumes "counter_id c = None \<or> c \<in> set (checkout_counters d)"
  shows "\<exists>k. counter_id (snd (save_counter d (c\<lparr>alias_value := al\<rparr>))) = Some k \<and>
           (Some k, al) \<in> set (key_alias (fst (save_counter d (c\<lparr>alias_value := al\<rparr>)))) \<and>
           set (filter (\<lambda>p. fst p \<noteq> Some k) (key_alias (fst (save_counter d (c\<lparr>alias_value := al\<rparr>)))))
             \<subseteq> set (key_alias d)"
proof (cases "counter_id c")
  case None
  then show ?thesis
    by (auto simp: save_counter_def Let_def key_alias_def)
next
  case (Some k)
  with assms have "c \<in> set (checkout_counters d)" by simp
  with Some show ?thesis
    by (auto simp: save_counter_def key_alias_def image_iff intro!: bexI [where x = c])
qed

lemma own_counter_cases:
  "counter_id (own_counter d m) = None \<or> own_counter d m \<in> set (checkout_counters d)"
proof (cases "counters_of d (merchant_id m)")
  case Nil
  then show ?thesis by (simp add: own_counter_def new_counter_def)
next
  case (Cons c cs)
  then have "c \<in> set (counters_of d (merchant_id m))" by simp
  then have "c \<in> set (checkout_counters d)" by (simp add: counters_of_def)
  with Cons show ?thesis by (cases cs) (simp_all add: own_counter_def new_counter_def)
qed

lemma not_exists_alias:
  "\<not> exists_alias d al \<Longrightarrow> p \<in> set (key_alias d) \<Longrightarrow> snd p \<noteq> al"
  by (cases al) (auto simp: exists_alias_def key_alias_def)

text \<open>
  C9. In PUT /merchants/:id/draft, when the checkout counter was saved in the request (its
  alias differed from the alias of the body, no counter had that alias, and the save
  succeeded) and then a save of the merchant or of its license throws, the handler
  answers 500, and the database it leaves has no row with the key of that counter and no
  row with the alias of the body, whether the counter was new or the merchant's own.
\<close>

theorem failed_draft_update_deletes_counter:
  "dummy_auth v d a = Some pu \<and> submit_parse sch b = Some st \<and> findOne_merchant d n = Some m \<and>
   registration_status m = DRAFT \<and>
   alias_value (own_counter d m) \<noteq> b_payinto_alias b \<and> \<not> exists_alias d (b_payinto_alias b) \<and>
   save_counter_result e = None \<and>
   (save_merchant_result e \<noteq> None \<or>
    pdf \<and> (\<exists>path. upload_result e = Inr (Some path)) \<and>
    (save_license_result e \<noteq> None \<or> resave_merchant_result e \<noteq> None)) \<longrightarrow>
   (\<exists>k. counter_id (snd (save_counter d ((own_counter d m)\<lparr>alias_value := b_payinto_alias b\<rparr>))) = Some k \<and>
      (\<exists>r \<in> set (checkout_counters
           (fst (save_counter d ((own_counter d m)\<lparr>alias_value := b_payinto_alias b\<rparr>)))).
         counter_id r = Some k \<and> alias_value r = b_payinto_alias b) \<and>
      status_of (fst (putMerchantDraft v e sch a n b pdf d)) = Some 500 \<and>
      (\<forall>r \<in> set (checkout_counters (snd (putMerchantDraft v e sch a n b pdf d))).
         counter_id r \<noteq> Some k \<and> alias_value r \<noteq> b_payinto_alias b))"
proof (intro impI)
  let ?c = "(own_counter d m)\<lparr>alias_value := b_payinto_alias b\<rparr>"
  let ?m = "(assign_body b st m)\<lparr>created_by := (case pu of None \<Rightarrow> created_by m
     | Some u \<Rightarrow> Some (user_id u))\<rparr>"
  assume h: "dummy_auth v d a = Some pu \<and> submit_parse sch b = Some st \<and> findOne_merchant d n = Some m \<and>
   registration_status m = DRAFT \<and>
   alias_value (own_counter d m) \<noteq> b_payinto_alias b \<and> \<not> exists_alias d (b_payinto_alias b) \<and>
   save_counter_result e = None \<and>
   (save_merchant_result e \<noteq> None \<or>
    pdf \<and> (\<exists>path. upload_result e = Inr (Some path)) \<and>
    (save_license_result e \<noteq> None \<or> resave_merchant_result e \<noteq> None))"
  then have nn: "\<not> isNaN n" by (cases n) (auto simp: findOne_merchant_def find_Some_iff)
  from h have dc: "draft_counter e b m d = Inr (save_counter d ?c)"
    by (simp add: draft_counter_def Let_def)
  from save_counter_keyed [OF own_counter_cases [of d m], where al = "b_payinto_alias b"]
  obtain k where k: "counter_id (snd (save_counter d ?c)) = Some k"
    and stored: "(Some k, b_payinto_alias b) \<in> set (key_alias (fst (save_counter d ?c)))"
    and rest: "set (filter (\<lambda>p. fst p \<noteq> Some k) (key_alias (fst (save_counter d ?c))))
       \<subseteq> set (key_alias d)"
    by blast
  from h nn dc have run: "putMerchantDraft v e sch a n b pdf d =
      put_draft_save e b pdf pu ?m (snd (save_counter d ?c)) (fst (save_counter d ?c))"
    by (simp add: putMerchantDraft_def Let_def split: prod.splits)
  from h have thrown: "save_merchant_result e \<noteq> None \<or>
      pdf \<and> (\<exists>path. upload_result e = Inr (Some path)) \<and>
      (save_license_result e \<noteq> None \<or> resave_merchant_result e \<noteq> None)" by simp
  note rev = put_draft_save_reverts [OF k thrown, of b pu ?m "fst (save_counter d ?c)"]
  have gone: "\<forall>r \<in> set (checkout_counters (snd (putMerchantDraft v e sch a n b pdf d))).
         counter_id r \<noteq> Some k \<and> alias_value r \<noteq> b_payinto_alias b"
  proof
    fix r assume "r \<in> set (checkout_counters (snd (putMerchantDraft v e sch a n b pdf d)))"
    then have "(counter_id r, alias_value r) \<in> set (key_alias (snd (putMerchantDraft v e sch a n b pdf d)))"
      by (auto simp: key_alias_def)
    with run rev have in_f: "(counter_id r, alias_value r) \<in>
        set (filter (\<lambda>p. fst p \<noteq> Some k) (key_alias (fst (save_counter d ?c))))"
      by simp
    then have 1: "counter_id r \<noteq> Some k" by simp
    from in_f rest have "(counter_id r, alias_value r) \<in> set (key_alias d)" by blast
    with h not_exists_alias [of d "b_payinto_alias b" "(counter_id r, alias_value r)"]
    have "alias_value r \<noteq> b_payinto_alias b" by simp
    with 1 show "counter_id r \<noteq> Some k \<and> alias_value r \<noteq> b_payinto_alias b" by simp
  qed
  from stored have "\<exists>r \<in> set (checkout_counters (fst (save_counter d ?c))).
         counter_id r = Some k \<and> alias_value r = b_payinto_alias b"
    by (auto simp: key_alias_def)
  with k run rev gone
  show "\<exists>k. counter_id (snd (save_counter d ?c)) = Some k \<and>
      (\<exists>r \<in> set (checkout_counters (fst (save_counter d ?c))).
         counter_id r = Some k \<and> alias_value r = b_payinto_alias b) \<and>
      status_of (fst (putMerchantDraft v e sch a n b pdf d)) = Some 500 \<and>
      (\<forall>r \<in> set (checkout_counters (snd (putMerchantDraft v e sch a n b pdf d))).
         counter_id r \<noteq> Some k \<and> alias_value r \<noteq> b_payinto_alias b)"
    by auto
qed

theorem failed_draft_update_deletes_counter_witness:
  "dummy_auth env0 db0 (Some ''Bearer token1'') = Some (Some maker) \<and>
   submit_parse any_body body0 = Some DRAFT \<and> findOne_merchant db0 (Num 3) = Some gamma \<and>
   registration_status gamma = DRAFT \<and>
   alias_value (own_counter db0 gamma) \<noteq> b_payinto_alias body0 \<and>
   \<not> exists_alias db0 (b_payinto_alias body0) \<and>
   save_counter_result io_fail = None \<and> save_merchant_result io_fail \<noteq> None \<and>
   save_counter db0 ((own_counter db0 gamma)\<lparr>alias_value := b_payinto_alias body0\<rparr>) =
     (db0\<lparr>checkout_counters :=
         [\<lparr>counter_id = Some 1, alias_value = Some ''alpha'', counter_merchant = Some 1\<rparr>,
          \<lparr>counter_id = Some 2, alias_value = Some ''shared'', counter_merchant = None\<rparr>]\<rparr>,
      \<lparr>counter_id = Some 2, alias_value = Some ''shared'', counter_merchant = None\<rparr>) \<and>
   status_of (fst (putMerchantDraft env0 io_fail any_body (Some ''Bearer token1'') (Num 3) body0 False db0)) =
     Some 500 \<and>
   list_all (\<lambda>r. counter_id r \<noteq> Some 2 \<and> alias_value r \<noteq> Some ''shared'')
     (checkout_counters
        (snd (putMerchantDraft env0 io_fail any_body (Some ''Bearer token1'') (Num 3) body0 False db0)))"
proof -
  let ?r = "putMerchantDraft env0 io_fail any_body (Some ''Bearer token1'') (Num 3) body0 False db0"
  have h: "dummy_auth env0 db0 (Some ''Bearer token1'') = Some (Some maker) \<and>
   submit_parse any_body body0 = Some DRAFT \<and> findOne_merchant db0 (Num 3) = Some gamma \<and>
   registration_status gamma = DRAFT \<and>
   alias_value (own_counter db0 gamma) \<noteq> b_payinto_alias body0 \<and>
   \<not> exists_alias db0 (b_payinto_alias body0) \<and>
   save_counter_result io_fail = None \<and> save_merchant_result io_fail \<noteq> None"
    by (simp add: submit_parse_def own_counter_def counters_of_def new_counter_def exists_alias_def
        io_fail_def query_defs example_defs example2_defs)
  have s: "save_counter db0 ((own_counter db0 gamma)\<lparr>alias_value := b_payinto_alias body0\<rparr>) =
     (db0\<lparr>checkout_counters :=
         [\<lparr>counter_id = Some 1, alias_value = Some ''alpha'', counter_merchant = Some 1\<rparr>,
          \<lparr>counter_id = Some 2, alias_value = Some ''shared'', counter_merchant = None\<rparr>]\<rparr>,
      \<lparr>counter_id = Some 2, alias_value = Some ''shared'', counter_merchant = None\<rparr>)"
    by (simp add: save_counter_def own_counter_def counters_of_def new_counter_def counter_keys_def
        fresh_id_def List.map_filter_def Let_def example_defs example2_defs)
  from failed_draft_update_deletes_counter [where v = env0 and d = db0
      and a = "Some ''Bearer token1''" and pu = "Some maker" and sch = any_body and b = body0
      and st = DRAFT and n = "Num 3" and m = gamma and e = io_fail and pdf = False] h
  obtain k where k: "counter_id (snd (save_counter db0
        ((own_counter db0 gamma)\<lparr>alias_value := b_payinto_alias body0\<rparr>))) = Some k"
    and c: "status_of (fst ?r) = Some 500 \<and>
      (\<forall>r \<in> set (checkout_counters (snd ?r)).
         counter_id r \<noteq> Some k \<and> alias_value r \<noteq> b_payinto_alias body0)"
    by blast
  from k s have "k = 2" by simp
  moreover have "b_payinto_alias body0 = Some ''shared''" by (simp add: example2_defs)
  ultimately show ?thesis using h s c by (simp add: list_all_iff)
qed

subsection \<open>The claim on the list of merchants\<close>

lemma like_percent:
  "sql_like same (CHR ''%'' # ps) t \<Longrightarrow> \<exists>a u. t = a @ u \<and> sql_like same ps u"
proof (induction t)
  case Nil
  then show ?case by simp
next
  case (Cons c cs)
  from Cons.prems have "sql_like same ps (c # cs) \<or> sql_like same (CHR ''%'' # ps) cs" by simp
  then show ?case
  proof
    assume "sql_like same ps (c # cs)"
    then have "c # cs = [] @ (c # cs) \<and> sql_like same ps (c # cs)" by simp
    then show ?thesis by blast
  next
    assume "sql_like same (CHR ''%'' # ps) cs"
    with Cons.IH obtain a u where "cs = a @ u" "sql_like same ps u" by blast
    then have "c # cs = (c # a) @ u \<and> sql_like same ps u" by simp
    then show ?thesis by blast
  qed
qed

lemma like_literal:
  "plain s \<Longrightarrow> sql_like same (s @ rest) t \<Longrightarrow>
   \<exists>part u. t = part @ u \<and> list_all2 same s part \<and> sql_like same rest u"
proof (induction s arbitrary: t)
  case Nil
  then have "t = [] @ t \<and> list_all2 same [] [] \<and> sql_like same rest t" by simp
  then show ?case by blast
next
  case (Cons x xs)
  from Cons.prems(1) have x: "x \<noteq> CHR ''%''" "x \<noteq> CHR ''_''" and xs: "plain xs"
    by (simp_all add: plain_def)
  show ?case
  proof (cases t)
    case Nil
    with Cons.prems(2) x show ?thesis by simp
  next
    case t: (Cons c cs)
    with Cons.prems(2) x have c: "same x c" and "sql_like same (xs @ rest) cs" by simp_all
    with Cons.IH [OF xs] obtain part u where "cs = part @ u" "list_all2 same xs part"
        "sql_like same rest u" by blast
    with t c have "t = (c # part) @ u \<and> list_all2 same (x # xs) (c # part) \<and> sql_like same rest u"
      by simp
    then show ?thesis by blast
  qed
qed

lemma like_part:
  assumes "plain s" and "sql_like same (CHR ''%'' # s @ ''%'') t"
  shows "\<exists>part. sublist part t \<and> list_all2 same s part"
proof -
  from like_percent [OF assms(2)] obtain a u where t: "t = a @ u"
    and "sql_like same (s @ ''%'') u" by blast
  with like_literal [OF assms(1)] obtain part w where "u = part @ w" "list_all2 same s part"
    by blast
  with t have "sublist part t \<and> list_all2 same s part" by (auto simp: sublist_def)
  then show ?thesis by blast
qed

text \<open>Under a collation that tells all characters apart, that part is the name itself.\<close>

lemma like_sublist:
  assumes "plain s" and "sql_like (=) (CHR ''%'' # s @ ''%'') t"
  shows "sublist s t"
  using like_part [OF assms] by (simp add: list.rel_eq)

text \<open>
  In a zone without daylight saving time, the times between \<open>setHours(0, 0, 0, 0)\<close> and
  \<open>setHours(23, 59, 59, 999)\<close> of a date are the times of its local day.
\<close>

lemma same_day:
  "fixed_zone_setHours offset t 0 0 0 0 \<le> x \<and> x \<le> fixed_zone_setHours offset t 23 59 59 999 \<longleftrightarrow>
   (x + offset) div day_ms = (t + offset) div day_ms"
proof -
  have pos: "0 < day_ms" by (simp add: day_ms_def)
  let ?q = "(t + offset) div day_ms"
  have "fixed_zone_setHours offset t 0 0 0 0 \<le> x \<and> x \<le> fixed_zone_setHours offset t 23 59 59 999 \<longleftrightarrow>
      ?q * day_ms \<le> x + offset \<and> x + offset < ?q * day_ms + day_ms"
    by (auto simp: fixed_zone_setHours_def day_ms_def)
  also have "\<dots> \<longleftrightarrow> (x + offset) div day_ms = ?q"
  proof
    assume a: "?q * day_ms \<le> x + offset \<and> x + offset < ?q * day_ms + day_ms"
    have "x + offset = day_ms * ?q + (x + offset - ?q * day_ms)" by simp
    moreover from a have "0 \<le> x + offset - ?q * day_ms" "x + offset - ?q * day_ms < day_ms"
      by simp_all
    ultimately show "(x + offset) div day_ms = ?q" by (rule int_div_pos_eq)
  next
    assume e: "(x + offset) div day_ms = ?q"
    have "?q * day_ms + (x + offset) mod day_ms = x + offset"
      unfolding e [symmetric] by simp
    moreover from pos have "0 \<le> (x + offset) mod day_ms" "(x + offset) mod day_ms < day_ms"
      by simp_all
    ultimately show "?q * day_ms \<le> x + offset \<and> x + offset < ?q * day_ms + day_ms"
      by linarith
  qed
  finally show ?thesis .
qed

lemma order_by_created_at_desc_sorted:
  "sorted_wrt (\<lambda>x y. created_at y \<le> created_at x) (order_by_created_at_desc ms)"
proof -
  have "sorted (map (\<lambda>m. - created_at m) (order_by_created_at_desc ms))"
    unfolding order_by_created_at_desc_def by (rule sorted_sort_key)
  then show ?thesis by (simp add: sorted_map)
qed

lemma order_by_created_at_desc_set: "set (order_by_created_at_desc ms) = set ms"
  by (simp add: order_by_created_at_desc_def)

lemma listed_merchant_row: "mo_row (listed_merchant d m) = m"
  by (simp add: listed_merchant_def)

lemma js_greater_not_NaN: "js_greater n r \<Longrightarrow> \<not> isNaN n"
  by (cases n) simp_all

lemma build_where_status:
  "build_where d q = Some w \<Longrightarrow> w_registration_status w = given (q_registrationStatus q)"
  by (auto simp: build_where_def Let_def split: option.splits if_splits)

lemma build_where_created_by:
  "build_where d q = Some w \<Longrightarrow> js_greater (q_addedBy q) 0 \<Longrightarrow>
   findOne_user_by_number d (q_addedBy q) = Some usr \<Longrightarrow> w_created_by w = Some (user_id usr)"
  by (auto simp: build_where_def Let_def dest: js_greater_not_NaN split: option.splits if_splits)

lemma build_where_checked_by:
  "build_where d q = Some w \<Longrightarrow> js_greater (q_approvedBy q) 0 \<Longrightarrow>
   findOne_user_by_number d (q_approvedBy q) = Some usr \<Longrightarrow> w_checked_by w = Some (user_id usr)"
  by (auto simp: build_where_def Let_def dest: js_greater_not_NaN split: option.splits if_splits)

lemma build_where_payinto:
  "build_where d q = Some w \<Longrightarrow> given (q_payintoId q) = Some al \<Longrightarrow>
   findOne_counter_by_alias d al = Some c \<Longrightarrow>
   \<exists>k. counter_merchant c = Some k \<and> w_id w = Some (Num (of_nat k))"
  by (auto simp: build_where_def Let_def split: option.splits if_splits)

lemma build_where_merchantId:
  "build_where d q = Some w \<Longrightarrow> js_greater (q_merchantId q) 0 \<Longrightarrow>
   \<forall>al. given (q_payintoId q) = Some al \<longrightarrow> findOne_counter_by_alias d al = None \<Longrightarrow>
   w_id w = Some (q_merchantId q)"
  by (auto simp: build_where_def Let_def dest: js_greater_not_NaN split: option.splits if_splits)

lemma filtered_passes:
  assumes w: "build_where d q = Some w"
    and wh: "where_holds w m"
    and nl: "name_like p (q_dbaName q) (dba_trading_name m)"
    and od: "on_day p (q_addedTime q) (created_at m)"
    and ou: "on_day p (q_updatedTime q) (updated_at m)"
  shows "passes p d q m"
  unfolding passes_def
proof (intro conjI allI impI)
  fix al c assume "given (q_payintoId q) = Some al \<and> findOne_counter_by_alias d al = Some c"
  with build_where_payinto [OF w] obtain k where "counter_merchant c = Some k"
      "w_id w = Some (Num (of_nat k))" by blast
  with wh show "counter_merchant c = Some (merchant_id m)"
    by (simp add: where_holds_def)
next
  assume "js_greater (q_merchantId q) 0 \<and>
       (\<forall>al. given (q_payintoId q) = Some al \<longrightarrow> findOne_counter_by_alias d al = None)"
  with build_where_merchantId [OF w] have "w_id w = Some (q_merchantId q)" by blast
  with wh show "id_is (q_merchantId q) (merchant_id m)" by (simp add: where_holds_def)
next
  fix st assume "given (q_registrationStatus q) = Some st"
  with build_where_status [OF w] wh show "status_value (registration_status m) = st"
    by (simp add: where_holds_def)
next
  fix usr assume "js_greater (q_addedBy q) 0 \<and> findOne_user_by_number d (q_addedBy q) = Some usr"
  with build_where_created_by [OF w] have "w_created_by w = Some (user_id usr)" by blast
  with wh show "created_by m = Some (user_id usr)" by (simp add: where_holds_def)
next
  fix usr assume "js_greater (q_approvedBy q) 0 \<and>
         findOne_user_by_number d (q_approvedBy q) = Some usr"
  with build_where_checked_by [OF w] have "w_checked_by w = Some (user_id usr)" by blast
  with wh show "checked_by m = Some (user_id usr)" by (simp add: where_holds_def)
next
  fix nm assume g: "given (q_dbaName q) = Some nm"
  with nl show l: "sql_like (collation p) (CHR ''%'' # nm @ ''%'') (dba_trading_name m)"
    by (simp add: name_like_def)
  assume "plain nm"
  then show "\<exists>part. sublist part (dba_trading_name m) \<and> list_all2 (collation p) nm part"
    using l by (rule like_part)
next
  fix str t assume "given (q_addedTime q) = Some str \<and> Date_parse p str = Some t"
  with od have "setHours p t 0 0 0 0 \<le> created_at m \<and> created_at m \<le> setHours p t 23 59 59 999"
    by (simp add: on_day_def)
  then show "setHours p t 0 0 0 0 \<le> created_at m" "created_at m \<le> setHours p t 23 59 59 999"
    by simp_all
next
  fix str t assume "given (q_updatedTime q) = Some str \<and> Date_parse p str = Some t"
  with ou have "setHours p t 0 0 0 0 \<le> updated_at m \<and> updated_at m \<le> setHours p t 23 59 59 999"
    by (simp add: on_day_def)
  then show "setHours p t 0 0 0 0 \<le> updated_at m" "updated_at m \<le> setHours p t 23 59 59 999"
    by simp_all
qed

text \<open>
  C7, as the code has it. Every merchant of the data of an authenticated GET /merchants is
  a row of the table that passes each filter that takes effect, and the list is in
  descending order of \<open>created_at\<close>. A payinto id that is the alias of a counter selects the
  merchant of that counter and overrides the merchant id; the merchant id counts when it
  is a number above 0 and no payinto id resolves; \<open>addedBy\<close> and \<open>approvedBy\<close> count when they
  are numbers above 0 that name a portal user; the registration status counts when it is
  a non-empty string; the name is matched by LIKE against \<open>%dbaName%\<close> under the collation
  of the database, so that, when the name has no wildcard, a part of the trading name
  equals it character by character under that collation; \<open>addedTime\<close> and \<open>updatedTime\<close>
  count when they are dates, and then \<open>created_at\<close> and \<open>updated_at\<close> lie between
  \<open>setHours(0, 0, 0, 0)\<close> and \<open>setHours(23, 59, 59, 999)\<close> of the date, the first and the
  last millisecond of its day in the local time of the server.
\<close>

theorem listed_merchants_pass_filters:
  "getMerchants e p (Some u) q d = Response s (MessageList msg data) \<longrightarrow>
     s = 200 \<and>
     sorted_wrt (\<lambda>x y. created_at (mo_row y) \<le> created_at (mo_row x)) data \<and>
     (\<forall>x \<in> set data. mo_row x \<in> set (merchants d) \<and> passes p d q (mo_row x))"
proof (intro impI)
  assume r: "getMerchants e p (Some u) q d = Response s (MessageList msg data)"
  let ?keep = "\<lambda>w m. where_holds w m \<and> name_like p (q_dbaName q) (dba_trading_name m) \<and>
      on_day p (q_addedTime q) (created_at m) \<and>
      on_day p (q_updatedTime q) (updated_at m)"
  from r obtain w where w: "build_where d q = Some w" and s: "s = 200"
    and data: "data = map (listed_merchant d)
        (order_by_created_at_desc (filter (?keep w) (merchants d)))"
    by (auto simp: getMerchants_def Let_def split: option.splits)
  have sorted: "sorted_wrt (\<lambda>x y. created_at (mo_row y) \<le> created_at (mo_row x)) data"
    unfolding data
    by (simp add: sorted_wrt_map listed_merchant_row order_by_created_at_desc_sorted)
  have each: "\<forall>x \<in> set data. mo_row x \<in> set (merchants d) \<and> passes p d q (mo_row x)"
  proof
    fix x assume "x \<in> set data"
    then obtain m where m: "m \<in> set (merchants d)" "?keep w m" and x: "x = listed_merchant d m"
      unfolding data by (auto simp: order_by_created_at_desc_set)
    from m(2) have "passes p d q m"
      by (intro filtered_passes [OF w]) simp_all
    with m(1) x show "mo_row x \<in> set (merchants d) \<and> passes p d q (mo_row x)"
      by (simp add: listed_merchant_row)
  qed
  from s sorted each
  show "s = 200 \<and>
     sorted_wrt (\<lambda>x y. created_at (mo_row y) \<le> created_at (mo_row x)) data \<and>
     (\<forall>x \<in> set data. mo_row x \<in> set (merchants d) \<and> passes p d q (mo_row x))"
    by simp
qed

theorem listed_merchants_pass_filters_witness:
  "getMerchants io_ok platform0 (Some checker)
     (query0\<lparr>q_addedTime := Some ''1970-01-01'', q_dbaName := Some ''alpha''\<rparr>) db0 =
     Response 200 (MessageList ''OK'' [listed_merchant db0 alpha]) \<and>
   dba_trading_name alpha = ''Alpha'' \<and> created_at alpha = 100 \<and>
   sorted_wrt (\<lambda>x y. created_at (mo_row y) \<le> created_at (mo_row x)) [listed_merchant db0 alpha] \<and>
   mo_row (listed_merchant db0 alpha) \<in> set (merchants db0) \<and>
   passes platform0 db0 (query0\<lparr>q_addedTime := Some ''1970-01-01'', q_dbaName := Some ''alpha''\<rparr>)
     (mo_row (listed_merchant db0 alpha)) \<and>
   getMerchants io_ok platform0 (Some checker) (query0\<lparr>q_registrationStatus := Some ''Review''\<rparr>) db0 =
     Response 200 (MessageList ''OK'' [listed_merchant db0 alpha]) \<and>
   map (merchant_id \<circ> mo_row) (case getMerchants io_ok platform0 (Some checker) query0 db0 of
      Response _ (MessageList _ xs) \<Rightarrow> xs | _ \<Rightarrow> []) = [3, 2, 1]"
proof -
  let ?q = "query0\<lparr>q_addedTime := Some ''1970-01-01'', q_dbaName := Some ''alpha''\<rparr>"
  let ?r = "query0\<lparr>q_registrationStatus := Some ''Review''\<rparr>"
  have w: "build_where db0 ?q = Some \<lparr>w_created_by = None, w_checked_by = None, w_id = None,
      w_registration_status = None\<rparr>"
    by (simp add: build_where_def given_def example2_defs)
  have h: "getMerchants io_ok platform0 (Some checker) ?q db0 =
     Response 200 (MessageList ''OK'' [listed_merchant db0 alpha])"
    by (simp add: getMerchants_def w io_ok_def)
       (simp add: where_holds_def name_like_def on_day_def given_def nocase_def ascii_lower_def
        fixed_zone_setHours_def day_ms_def order_by_created_at_desc_def example_defs example2_defs)
  have a: "dba_trading_name alpha = ''Alpha'' \<and> created_at alpha = 100"
    by (simp add: example_defs)
  from listed_merchants_pass_filters [where e = io_ok and p = platform0
      and u = checker and q = ?q and d = db0 and s = 200 and msg = "''OK''"
      and data = "[listed_merchant db0 alpha]"] h
  have c: "sorted_wrt (\<lambda>x y. created_at (mo_row y) \<le> created_at (mo_row x)) [listed_merchant db0 alpha] \<and>
      mo_row (listed_merchant db0 alpha) \<in> set (merchants db0) \<and>
      passes platform0 db0 ?q (mo_row (listed_merchant db0 alpha))"
    by simp
  have wr: "build_where db0 ?r = Some \<lparr>w_created_by = None, w_checked_by = None, w_id = None,
      w_registration_status = Some ''Review''\<rparr>"
    by (simp add: build_where_def given_def example2_defs)
  have r: "getMerchants io_ok platform0 (Some checker) ?r db0 =
     Response 200 (MessageList ''OK'' [listed_merchant db0 alpha])"
    by (simp add: getMerchants_def wr io_ok_def)
       (simp add: where_holds_def name_like_def on_day_def given_def
        order_by_created_at_desc_def example_defs example2_defs)
  have w0: "build_where db0 query0 = Some \<lparr>w_created_by = None, w_checked_by = None, w_id = None,
      w_registration_status = None\<rparr>"
    by (simp add: build_where_def given_def example2_defs)
  have o: "map (merchant_id \<circ> mo_row) (case getMerchants io_ok platform0 (Some checker) query0 db0 of
      Response _ (MessageList _ xs) \<Rightarrow> xs | _ \<Rightarrow> []) = [3, 2, 1]"
    by (simp add: getMerchants_def w0 io_ok_def)
       (simp add: where_holds_def name_like_def on_day_def given_def
        order_by_created_at_desc_def listed_merchant_def example_defs example2_defs)
  from h a c r o show ?thesis by simp
qed

text \<open>
  C7 as it is written fails: with the merchant id 2 and the payinto id of the counter of
  merchant 1 the answer is merchant 1; the name \<open>%\<close> is matched by all three names,
  none of which contains a percent sign; and under the collation \<open>NOCASE\<close> the name
  \<open>alpha\<close> selects the merchant \<open>Alpha\<close>, whose name does not contain it.
\<close>

theorem listed_merchants_pass_filters_counterexample:
  "map (merchant_id \<circ> mo_row)
     (case getMerchants io_ok platform0 (Some checker)
         (query0\<lparr>q_merchantId := Num 2, q_payintoId := Some ''alpha''\<rparr>) db0 of
        Response _ (MessageList _ xs) \<Rightarrow> xs | _ \<Rightarrow> []) = [1] \<and>
   map (dba_trading_name \<circ> mo_row)
     (case getMerchants io_ok platform0 (Some checker) (query0\<lparr>q_dbaName := Some ''%''\<rparr>) db0 of
        Response _ (MessageList _ xs) \<Rightarrow> xs | _ \<Rightarrow> []) = [''Gamma'', ''Beta'', ''Alpha''] \<and>
   map (dba_trading_name \<circ> mo_row)
     (case getMerchants io_ok platform0 (Some checker) (query0\<lparr>q_dbaName := Some ''alpha''\<rparr>) db0 of
        Response _ (MessageList _ xs) \<Rightarrow> xs | _ \<Rightarrow> []) = [''Alpha''] \<and>
   \<not> sublist ''alpha'' ''Alpha''"
proof -
  have w1: "build_where db0 (query0\<lparr>q_merchantId := Num 2, q_payintoId := Some ''alpha''\<rparr>) =
      Some \<lparr>w_created_by = None, w_checked_by = None, w_id = Some (Num 1),
        w_registration_status = None\<rparr>"
    by (simp add: build_where_def given_def findOne_counter_by_alias_def example_defs example2_defs)
  have w2: "build_where db0 (query0\<lparr>q_dbaName := Some ''%''\<rparr>) =
      Some \<lparr>w_created_by = None, w_checked_by = None, w_id = None, w_registration_status = None\<rparr>"
    by (simp add: build_where_def given_def example2_defs)
  have a: "map (merchant_id \<circ> mo_row)
     (case getMerchants io_ok platform0 (Some checker)
         (query0\<lparr>q_merchantId := Num 2, q_payintoId := Some ''alpha''\<rparr>) db0 of
        Response _ (MessageList _ xs) \<Rightarrow> xs | _ \<Rightarrow> []) = [1]"
    by (simp add: getMerchants_def w1 io_ok_def)
       (simp add: where_holds_def name_like_def on_day_def given_def
        order_by_created_at_desc_def listed_merchant_def example_defs example2_defs)
  have b: "map (dba_trading_name \<circ> mo_row)
     (case getMerchants io_ok platform0 (Some checker) (query0\<lparr>q_dbaName := Some ''%''\<rparr>) db0 of
        Response _ (MessageList _ xs) \<Rightarrow> xs | _ \<Rightarrow> []) = [''Gamma'', ''Beta'', ''Alpha'']"
    by (simp add: getMerchants_def w2 io_ok_def)
       (simp add: where_holds_def name_like_def on_day_def given_def
        order_by_created_at_desc_def listed_merchant_def example_defs example2_defs)
  have w3: "build_where db0 (query0\<lparr>q_dbaName := Some ''alpha''\<rparr>) =
      Some \<lparr>w_created_by = None, w_checked_by = None, w_id = None, w_registration_status = None\<rparr>"
    by (simp add: build_where_def given_def example2_defs)
  have c: "map (dba_trading_name \<circ> mo_row)
     (case getMerchants io_ok platform0 (Some checker) (query0\<lparr>q_dbaName := Some ''alpha''\<rparr>) db0 of
        Response _ (MessageList _ xs) \<Rightarrow> xs | _ \<Rightarrow> []) = [''Alpha'']"
    by (simp add: getMerchants_def w3 io_ok_def)
       (simp add: where_holds_def name_like_def on_day_def given_def nocase_def ascii_lower_def
        order_by_created_at_desc_def listed_merchant_def example_defs example2_defs)
  have n: "\<not> sublist ''alpha'' ''Alpha''"
    by (simp add: sublist_Cons_right prefix_Cons)
  from a b c n show ?thesis by simp
qed

end
